theory Spec2Isabelle
  imports Main "HOL-Library.Word" "HOL-Library.Sublist"
begin

section \<open>Global map refinement: data model\<close>

text \<open>
  The development embeds \<^verbatim>\<open>bs_models/src/lib/global_mapping/global_map_refinement.cpp\<close>.
  Transforms (\<^verbatim>\<open>Eigen::Matrix4d\<close>), point clouds and floating-point scalars are kept
  abstract as the type variables \<open>'T\<close>, \<open>'c\<close> and \<open>'n\<close>: the functions below only pass
  them to collaborators, they never look inside. An exception is a \<open>Thrown\<close> outcome,
  and every function returns the state it leaves behind together with its outcome, as
  the C++ object keeps the mutations made before a throw. The \<^verbatim>\<open>throw\<close> statements of the
  file, the bounds checks of \<^verbatim>\<open>std::vector::at\<close>, the throwing conversions of the JSON
  library, a \<^verbatim>\<open>std::filesystem::create_directory\<close> that cannot make its directory and a
  failed construction of the scan registration engine are outcomes of the model;
  failures inside the other collaborators (allocation, the graph, the matchers) are not.
  Sizes and indices are unbounded naturals and integers, except the 16-bit counter of
  the alignment loop: a vector of submaps is far shorter than the range of \<^verbatim>\<open>int\<close>.
\<close>

datatype Time = Time (sec: nat) (nsec: nat)

datatype error =
    runtime_error string
  | invalid_argument string
  | json_type_error
  | out_of_range
  | null_dereference
  | filesystem_error

datatype 'a outcome = Returned 'a | Thrown error

record ('T, 'c) ScanPose =
  sp_stamp :: Time
  T_REFFRAME_BASELINK :: 'T
  sp_cloud :: 'c

text \<open>
  A submap: its stamp, the mutable \<^verbatim>\<open>T_WORLD_SUBMAP\<close>, the initial pose, and the lidar
  keyframes in the order \<^verbatim>\<open>LidarKeyframesBegin() .. LidarKeyframesEnd()\<close> iterates them.
\<close>

record ('T, 'c) Submap =
  stamp :: Time
  T_WORLD_SUBMAP :: 'T
  T_WORLD_SUBMAP_INIT :: 'T
  lidar_keyframes :: "('T, 'c) ScanPose list"

record 'n RegistrationResult =
  dR :: 'n
  dt :: 'n

record 'n Summary =
  submap_refinement :: "Time \<rightharpoonup> 'n RegistrationResult"
  submap_alignment :: "Time \<rightharpoonup> 'n RegistrationResult"

text \<open>
  The two members of \<^verbatim>\<open>Summary\<close> are written with \<^verbatim>\<open>emplace(stamp, result)\<close> and read as
  pairs of stamp and result: maps keyed by the stamp (the spec's mapping from timestamp
  to \<^verbatim>\<open>RegistrationResult\<close>; the declaration is in the header, which is not among the
  sources). \<^verbatim>\<open>std::map::emplace\<close> inserts the pair only when the key is not yet present.
\<close>

definition emplace :: "('k \<rightharpoonup> 'v) \<Rightarrow> 'k \<Rightarrow> 'v \<Rightarrow> ('k \<rightharpoonup> 'v)" where
  "emplace m k v = (case m k of None \<Rightarrow> m(k \<mapsto> v) | Some _ \<Rightarrow> m)"

datatype MatcherType = LOAM | ICP | GICP | NDT | UNKNOWN

datatype Engine =
    LoamMatcher string string
  | IcpMatcher string
  | GicpMatcher string
  | NdtMatcher string

subsection \<open>Pose graph\<close>

text \<open>
  Modelled from the spec: the fuse graph and \<^verbatim>\<open>bs_constraints::Pose3DStampedTransaction\<close>
  are not among the sources. A pose variable is identified by its stamp; a constraint is
  an absolute prior on one variable or a relative pose between two; a transaction is the
  variables and constraints it adds; \<^verbatim>\<open>update\<close> adds both to the graph (a variable that
  is already there keeps its value) and \<^verbatim>\<open>optimize\<close> gives every variable of the graph
  the solver's value.
\<close>

datatype ('T, 'n) Constraint =
    AbsolutePose Time 'T 'n string
  | RelativePose Time Time 'T 'n string

record ('T, 'n) Transaction =
  added_variables :: "(Time \<times> 'T) list"
  added_constraints :: "('T, 'n) Constraint list"

record ('T, 'n) HashGraph =
  variables :: "Time \<rightharpoonup> 'T"
  constraints :: "('T, 'n) Constraint list"

definition empty_transaction :: "('T, 'n) Transaction" where
  "empty_transaction = \<lparr>added_variables = [], added_constraints = []\<rparr>"

definition merge :: "('T, 'n) Transaction \<Rightarrow> ('T, 'n) Transaction \<Rightarrow> ('T, 'n) Transaction" where
  "merge t u = \<lparr>added_variables = added_variables t @ added_variables u,
                added_constraints = added_constraints t @ added_constraints u\<rparr>"

definition make_shared_graph :: "('T, 'n) HashGraph" where
  "make_shared_graph = \<lparr>variables = Map.empty, constraints = []\<rparr>"

fun add_variables :: "(Time \<rightharpoonup> 'T) \<Rightarrow> (Time \<times> 'T) list \<Rightarrow> (Time \<rightharpoonup> 'T)" where
  "add_variables m [] = m"
| "add_variables m ((t, v) # vs) = add_variables (emplace m t v) vs"

definition update :: "('T, 'n) HashGraph \<Rightarrow> ('T, 'n) Transaction \<Rightarrow> ('T, 'n) HashGraph" where
  "update g tx = \<lparr>variables = add_variables (variables g) (added_variables tx),
                  constraints = constraints g @ added_constraints tx\<rparr>"

subsection \<open>Collaborators\<close>

datatype ('T, 'c, 'n) event =
    LogError string
  | LogWarn string
  | CreateDirectory string
  | SetRef 'c
  | SetTarget 'c
  | Match bool
  | ApplyResult 'T
  | SaveResults string string
  | GraphUpdate "('T, 'n) Transaction"
  | GraphOptimize
  | FindRelocCandidates nat int bool
  | RunRefinement int nat 'T
  | UpdateSubmapPoses

datatype 'n json =
    JNull
  | JNumber 'n
  | JString string
  | JObject "(string \<times> 'n json) list"

text \<open>
  The services the file calls and does not define (libbeam, fuse, the scan registration,
  the relocalisation search and refinement, the filesystem), one field each. A matcher's
  answer is a function of the engine and of the reference and target cloud it was given;
  the scan registration threads its own state \<open>'sr\<close>. \<open>fs_exists\<close> is
  \<^verbatim>\<open>std::filesystem::exists\<close>; \<open>fs_mkdir p\<close> tells whether the directory \<open>p\<close> is there
  once \<^verbatim>\<open>std::filesystem::create_directory(p)\<close> has tried to make it: it was made, or it
  was a directory already.
\<close>

record ('T, 'c, 'n, 'sr) env =
  InvertTransform :: "'T \<Rightarrow> 'T"
  compose :: "'T \<Rightarrow> 'T \<Rightarrow> 'T"
  rotation_deg :: "'T \<Rightarrow> 'n"
  translation_mm :: "'T \<Rightarrow> 'n"
  toSec_string :: "Time \<Rightarrow> string"
  CombinePaths :: "string \<Rightarrow> string \<Rightarrow> string"
  fs_exists :: "string \<Rightarrow> bool"
  fs_mkdir :: "string \<Rightarrow> bool"
  ReadJson :: "string \<Rightarrow> 'n json option"
  GetBeamSlamConfigPath :: string
  GetTypeFromConfig :: "string \<Rightarrow> MatcherType"
  GetAbsoluteConfigPathFromJson :: "string \<Rightarrow> string \<Rightarrow> string"
  GetLidarLoamPointsInWorldFrame :: "('T, 'c) Submap \<Rightarrow> bool \<Rightarrow> 'c"
  GetLidarPointsInWorldFrameCombined :: "('T, 'c) Submap \<Rightarrow> bool \<Rightarrow> 'c"
  TransformPointCloud :: "'T \<Rightarrow> 'c \<Rightarrow> 'c"
  pcl_transformPointCloud :: "'T \<Rightarrow> 'c \<Rightarrow> 'c"
  matcher_Match :: "Engine \<Rightarrow> 'c \<Rightarrow> 'c \<Rightarrow> bool"
  matcher_ApplyResult :: "Engine \<Rightarrow> 'c \<Rightarrow> 'c \<Rightarrow> 'T \<Rightarrow> 'T"
  sr_Create :: "string \<Rightarrow> string \<Rightarrow> string \<Rightarrow> bool \<Rightarrow> error + 'sr"
  sr_Clear :: "'sr \<Rightarrow> 'sr"
  sr_RegisterNewScan :: "'sr \<Rightarrow> ('T, 'c) ScanPose \<Rightarrow> ('T, 'n) Transaction option \<times> 'sr"
  graph_solve :: "('T, 'n) HashGraph \<Rightarrow> Time \<Rightarrow> 'T"
  reloc_FindRelocCandidates ::
    "('T, 'c) Submap list \<Rightarrow> ('T, 'c) Submap \<Rightarrow> int \<Rightarrow> bool \<Rightarrow> string \<Rightarrow> (int \<times> 'T) list"
  reloc_RunRefinement ::
    "('T, 'c) Submap \<Rightarrow> ('T, 'c) Submap \<Rightarrow> 'T \<Rightarrow> string \<Rightarrow> bool \<times> 'T"

definition optimize :: "('T, 'c, 'n, 'sr) env \<Rightarrow> ('T, 'n) HashGraph \<Rightarrow> ('T, 'n) HashGraph" where
  "optimize env g =
     g\<lparr>variables := (\<lambda>t. case variables g t of None \<Rightarrow> None | Some _ \<Rightarrow> Some (graph_solve env g t))\<rparr>"

subsection \<open>Parameters and the refinement object\<close>

record 'n LoopClosureParams =
  candidate_search_config :: string
  refinement_config :: string
  local_mapper_covariance :: 'n
  loop_closure_covariance :: 'n

record SubmapRefinementParams =
  scan_registration_config :: string
  sr_matcher_config :: string

record SubmapAlignmentParams =
  sa_matcher_config :: string

record 'n Params =
  loop_closure :: "'n LoopClosureParams"
  submap_refinement_params :: SubmapRefinementParams
  submap_alignment_params :: SubmapAlignmentParams

text \<open>
  The members of \<^verbatim>\<open>GlobalMapRefinement\<close> (named without the trailing underscore).
  \<open>global_map\<close> is the vector \<^verbatim>\<open>global_map_->GetSubmaps()\<close> returns: shared pointers, so a
  write through an element is a write to the map. \<open>pgo_skip_first_n_submaps\<close> and
  \<open>pose_prior_noise\<close> are declared in the class header, which is not among the sources;
  they are fields here and so parameters of every statement. \<open>events\<close> records the
  calls to collaborators and the error and warning lines logged, in order.
\<close>

record ('T, 'c, 'n) GlobalMapRefinement =
  params :: "'n Params"
  global_map :: "('T, 'c) Submap list"
  summary :: "'n Summary"
  matcher_loam :: "Engine option"
  matcher :: "Engine option"
  pgo_skip_first_n_submaps :: nat
  pose_prior_noise :: 'n
  events :: "('T, 'c, 'n) event list"

definition emit ::
  "('T, 'c, 'n) event list \<Rightarrow> ('T, 'c, 'n) GlobalMapRefinement \<Rightarrow> ('T, 'c, 'n) GlobalMapRefinement" where
  "emit es st = st\<lparr>events := events st @ es\<rparr>"

text \<open>The constructor \<^verbatim>\<open>RegistrationResult(Ti, Tf)\<close>.\<close>

definition mk_RegistrationResult ::
  "('T, 'c, 'n, 'sr) env \<Rightarrow> 'T \<Rightarrow> 'T \<Rightarrow> 'n RegistrationResult" where
  "mk_RegistrationResult env Ti Tf =
     (let T_DIFF = compose env (InvertTransform env Ti) Tf
      in \<lparr>dR = rotation_deg env T_DIFF, dt = translation_mm env T_DIFF\<rparr>)"

text \<open>
  \<^verbatim>\<open>std::filesystem::create_directory(p)\<close>, the overload without an error code: it
  returns when the directory was made or was there already, and throws
  \<^verbatim>\<open>std::filesystem::filesystem_error\<close> otherwise (the parent is missing or not
  writable). The empty path names no directory, so on it the call always throws.
\<close>

definition can_create :: "('T, 'c, 'n, 'sr) env \<Rightarrow> string \<Rightarrow> bool" where
  "can_create env p \<longleftrightarrow> p \<noteq> [] \<and> fs_mkdir env p"

definition create_directory ::
  "('T, 'c, 'n, 'sr) env \<Rightarrow> string \<Rightarrow> ('T, 'c, 'n) GlobalMapRefinement
     \<Rightarrow> unit outcome \<times> ('T, 'c, 'n) GlobalMapRefinement" where
  "create_directory env p st =
     (if can_create env p then (Returned (), emit [CreateDirectory p] st)
      else (Thrown filesystem_error, emit [CreateDirectory p] st))"

section \<open>Submap alignment\<close>

text \<open>
  The part both branches of \<^verbatim>\<open>AlignSubmaps\<close> share word for word: set the clouds, match,
  apply the result to the seed, save the results when an output path is given. The value
  of \<^verbatim>\<open>Match()\<close> is stored in \<^verbatim>\<open>match_success\<close> and not read again.
\<close>

definition align_clouds ::
  "('T, 'c, 'n, 'sr) env \<Rightarrow> Engine \<Rightarrow> 'c \<Rightarrow> 'c \<Rightarrow> 'T \<Rightarrow> string \<Rightarrow> string
     \<Rightarrow> ('T, 'c, 'n) event list \<times> 'T" where
  "align_clouds env m ref_in_ref_submap_frame tgt_in_ref_submap_frame T_SubmapRef_SubmapTgt_Init
       output_path submap_output =
     (let match_success = matcher_Match env m ref_in_ref_submap_frame tgt_in_ref_submap_frame;
          T_SubmapRef_SubmapTgt =
            matcher_ApplyResult env m ref_in_ref_submap_frame tgt_in_ref_submap_frame
              T_SubmapRef_SubmapTgt_Init
      in ([SetRef ref_in_ref_submap_frame, SetTarget tgt_in_ref_submap_frame,
           Match match_success, ApplyResult T_SubmapRef_SubmapTgt_Init]
          @ (if output_path \<noteq> [] then [SaveResults submap_output ''submap_cloud_''] else []),
          T_SubmapRef_SubmapTgt))"

definition AlignSubmaps ::
  "('T, 'c, 'n, 'sr) env \<Rightarrow> ('T, 'c, 'n) GlobalMapRefinement \<Rightarrow> ('T, 'c) Submap \<Rightarrow> ('T, 'c) Submap
     \<Rightarrow> string \<Rightarrow> bool outcome \<times> ('T, 'c) Submap \<times> ('T, 'c, 'n) GlobalMapRefinement" where
  "AlignSubmaps env st submap_ref submap_tgt output_path =
     (if output_path \<noteq> [] \<and> \<not> fs_exists env output_path then
        (Thrown (runtime_error ''invalid path''), submap_tgt,
         emit [LogError ''Invalid output path for submap alignment''] st)
      else
        let dir = ''submap_'' @ toSec_string env (stamp submap_tgt);
            submap_output =
              (if output_path = [] then output_path else CombinePaths env output_path dir)
        in case create_directory env submap_output st of
             (Thrown e, st1) \<Rightarrow> (Thrown e, submap_tgt, st1)
           | (Returned _, st1) \<Rightarrow>
               let T_World_SubmapRef = T_WORLD_SUBMAP submap_ref;
                   T_World_SubmapRef_Init = T_WORLD_SUBMAP_INIT submap_ref;
                   T_World_SubmapTgt_Init = T_WORLD_SUBMAP_INIT submap_tgt;
                   T_SubmapRef_SubmapTgt_Init =
                     compose env (InvertTransform env T_World_SubmapRef_Init) T_World_SubmapTgt_Init;
                   T_W_B_i = T_WORLD_SUBMAP submap_tgt;
                   use_initials = True;
                   T_SubmapRef_WorldInit = InvertTransform env T_World_SubmapRef_Init;
                   aligned =
                     (case matcher_loam st of
                        Some m \<Rightarrow>
                          Some (align_clouds env m
                            (TransformPointCloud env T_SubmapRef_WorldInit
                               (GetLidarLoamPointsInWorldFrame env submap_ref use_initials))
                            (TransformPointCloud env T_SubmapRef_WorldInit
                               (GetLidarLoamPointsInWorldFrame env submap_tgt use_initials))
                            T_SubmapRef_SubmapTgt_Init output_path submap_output)
                      | None \<Rightarrow>
                          (case matcher st of
                             Some m \<Rightarrow>
                               Some (align_clouds env m
                                 (pcl_transformPointCloud env T_SubmapRef_WorldInit
                                    (GetLidarPointsInWorldFrameCombined env submap_ref use_initials))
                                 (pcl_transformPointCloud env T_SubmapRef_WorldInit
                                    (GetLidarPointsInWorldFrameCombined env submap_tgt use_initials))
                                 T_SubmapRef_SubmapTgt_Init output_path submap_output)
                           | None \<Rightarrow> None))
               in case aligned of
                    None \<Rightarrow> (Thrown null_dereference, submap_tgt, st1)
                  | Some (evs, T_SubmapRef_SubmapTgt) \<Rightarrow>
                      let T_World_SubmapTgt = compose env T_World_SubmapRef T_SubmapRef_SubmapTgt;
                          submap_tgt' = submap_tgt\<lparr>T_WORLD_SUBMAP := T_World_SubmapTgt\<rparr>;
                          T_W_B_f = T_WORLD_SUBMAP submap_tgt';
                          result = mk_RegistrationResult env T_W_B_i T_W_B_f;
                          st2 = emit evs st1
                      in (Returned True, submap_tgt',
                          st2\<lparr>summary := (summary st2)\<lparr>submap_alignment :=
                                 emplace (submap_alignment (summary st2)) (stamp submap_tgt') result\<rparr>\<rparr>))"

text \<open>
  \<^verbatim>\<open>RunSubmapAlignment\<close>. The loop counter is a \<^verbatim>\<open>uint16_t\<close>: past 65535 it wraps to 0,
  and \<^verbatim>\<open>submaps.at(i - 1)\<close> (the subtraction is done on \<^verbatim>\<open>int\<close>) then throws.
  \<open>u16_left\<close> counts the iterations that can still follow; it is what decreases.
\<close>

definition u16_left :: "16 word \<Rightarrow> nat" where
  "u16_left i = (if i = 0 then 0 else 2 ^ 16 - unat i)"

function align_loop ::
  "('T, 'c, 'n, 'sr) env \<Rightarrow> string \<Rightarrow> 16 word \<Rightarrow> ('T, 'c, 'n) GlobalMapRefinement
     \<Rightarrow> bool outcome \<times> ('T, 'c, 'n) GlobalMapRefinement" where
  "align_loop env output_path i st =
     (if unat i < length (global_map st) then
        (if i = 0 then (Thrown out_of_range, st)
         else
           (case AlignSubmaps env st (global_map st ! (unat i - 1)) (global_map st ! unat i)
                   output_path of
              (Thrown e, tgt, st') \<Rightarrow> (Thrown e, st'\<lparr>global_map := (global_map st')[unat i := tgt]\<rparr>)
            | (Returned ok, tgt, st') \<Rightarrow>
                (let st'' = st'\<lparr>global_map := (global_map st')[unat i := tgt]\<rparr>
                 in if \<not> ok then
                      (Returned False, emit [LogError ''Submap alignment failed, exiting.''] st'')
                    else align_loop env output_path (i + 1) st'')))
      else (Returned True, st))"
  by pat_completeness auto
termination
proof (relation "measure (\<lambda>(env, output_path, i, st). u16_left i)", goal_cases)
  case 1
  show ?case by simp
next
  case (2 env output_path i st)
  have nz: "i \<noteq> 0" by (rule 2(2))
  have b: "unat i < 2 ^ 16" using unsigned_less [of i] by simp
  have "u16_left (i + 1) < u16_left i"
  proof (cases "i + 1 = 0")
    case True
    then show ?thesis using nz b by (simp add: u16_left_def)
  next
    case False
    then have "unat (i + 1) = unat i + 1"
      using unatSuc [of i] by (simp add: add.commute)
    then show ?thesis using nz b False by (simp add: u16_left_def)
  qed
  then show ?case by simp
qed

declare align_loop.simps [simp del]

definition RunSubmapAlignment ::
  "('T, 'c, 'n, 'sr) env \<Rightarrow> ('T, 'c, 'n) GlobalMapRefinement \<Rightarrow> string
     \<Rightarrow> bool outcome \<times> ('T, 'c, 'n) GlobalMapRefinement" where
  "RunSubmapAlignment env st output_path =
     (if length (global_map st) < 2 then
        (Returned True,
         emit [LogWarn ''Not enough submaps to run submap alignment, at least two are needed''] st)
      else align_loop env output_path 1 st)"

section \<open>Submap refinement\<close>

text \<open>
  Modelled from the spec: \<^verbatim>\<open>ScanPose::UpdatePose(graph)\<close> is not among the sources. It
  overwrites the pose with the graph's value for the scan's stamp; a scan the graph has
  no variable for keeps its pose.
\<close>

definition ScanPose_UpdatePose ::
  "('T, 'n) HashGraph \<Rightarrow> ('T, 'c) ScanPose \<Rightarrow> ('T, 'c) ScanPose" where
  "ScanPose_UpdatePose graph scan_pose =
     (case variables graph (sp_stamp scan_pose) of
        None \<Rightarrow> scan_pose
      | Some v \<Rightarrow> scan_pose\<lparr>T_REFFRAME_BASELINK := v\<rparr>)"

text \<open>The first loop of \<^verbatim>\<open>RefineSubmap\<close>: a null transaction adds nothing to the graph.\<close>

fun register_scans ::
  "('T, 'c, 'n, 'sr) env \<Rightarrow> 'sr \<Rightarrow> ('T, 'n) HashGraph \<Rightarrow> ('T, 'c) ScanPose list
     \<Rightarrow> ('T, 'n) HashGraph" where
  "register_scans env sr graph [] = graph"
| "register_scans env sr graph (scan_pose # rest) =
     (case sr_RegisterNewScan env sr scan_pose of
        (None, sr') \<Rightarrow> register_scans env sr' graph rest
      | (Some transaction, sr') \<Rightarrow> register_scans env sr' (update graph transaction) rest)"

text \<open>The second loop: update each pose from the graph and record the change.\<close>

fun update_scan_poses ::
  "('T, 'c, 'n, 'sr) env \<Rightarrow> ('T, 'n) HashGraph \<Rightarrow> ('T, 'c) ScanPose list
     \<Rightarrow> (Time \<rightharpoonup> 'n RegistrationResult)
     \<Rightarrow> ('T, 'c) ScanPose list \<times> (Time \<rightharpoonup> 'n RegistrationResult)" where
  "update_scan_poses env graph [] sm = ([], sm)"
| "update_scan_poses env graph (scan_pose # rest) sm =
     (let T_W_B_init = T_REFFRAME_BASELINK scan_pose;
          scan_pose' = ScanPose_UpdatePose graph scan_pose;
          T_W_B_after = T_REFFRAME_BASELINK scan_pose';
          result = mk_RegistrationResult env T_W_B_init T_W_B_after;
          r = update_scan_poses env graph rest (emplace sm (sp_stamp scan_pose') result)
      in (scan_pose' # fst r, snd r))"

definition RefineSubmap ::
  "('T, 'c, 'n, 'sr) env \<Rightarrow> ('T, 'c, 'n) GlobalMapRefinement \<Rightarrow> ('T, 'c) Submap \<Rightarrow> string
     \<Rightarrow> bool outcome \<times> ('T, 'c) Submap \<times> ('T, 'c, 'n) GlobalMapRefinement" where
  "RefineSubmap env st submap output_path =
     (if output_path \<noteq> [] \<and> \<not> fs_exists env output_path then
        (Thrown (runtime_error ''invalid path''), submap,
         emit [LogError ''Invalid output path for submap refinement''] st)
      else
        let dir = ''submap_'' @ toSec_string env (stamp submap);
            submap_output =
              (if output_path = [] then output_path else CombinePaths env output_path dir)
        in case create_directory env submap_output st of
             (Thrown e, st1) \<Rightarrow> (Thrown e, submap, st1)
           | (Returned _, st1) \<Rightarrow>
               (case sr_Create env (scan_registration_config (submap_refinement_params (params st)))
                       (sr_matcher_config (submap_refinement_params (params st))) submap_output True of
                  Inl e \<Rightarrow> (Thrown e, submap, st1)
                | Inr scan_registration \<Rightarrow>
                    let graph = register_scans env (sr_Clear env scan_registration) make_shared_graph
                                  (lidar_keyframes submap);
                        graph' = optimize env graph;
                        r = update_scan_poses env graph' (lidar_keyframes submap)
                              (submap_refinement (summary st1))
                    in (Returned True, submap\<lparr>lidar_keyframes := fst r\<rparr>,
                        st1\<lparr>summary := (summary st1)\<lparr>submap_refinement := snd r\<rparr>\<rparr>)))"


text \<open>The path \<^verbatim>\<open>RefineSubmap\<close> and \<^verbatim>\<open>AlignSubmaps\<close> hand to their engine.\<close>

definition submap_output_path ::
  "('T, 'c, 'n, 'sr) env \<Rightarrow> string \<Rightarrow> ('T, 'c) Submap \<Rightarrow> string" where
  "submap_output_path env output_path submap =
     (if output_path = [] then output_path
      else CombinePaths env output_path (''submap_'' @ toSec_string env (stamp submap)))"

text \<open>The local graph of \<^verbatim>\<open>RefineSubmap\<close> after \<^verbatim>\<open>graph->optimize()\<close>, for an engine \<open>sr\<close>.\<close>

definition refined_graph ::
  "('T, 'c, 'n, 'sr) env \<Rightarrow> 'sr \<Rightarrow> ('T, 'c) Submap \<Rightarrow> ('T, 'n) HashGraph" where
  "refined_graph env sr submap =
     optimize env (register_scans env (sr_Clear env sr) make_shared_graph (lidar_keyframes submap))"

section \<open>Configuration and setup\<close>

text \<open>
  \<^verbatim>\<open>nlohmann::json\<close> as far as \<^verbatim>\<open>LoadJson\<close> uses it: \<^verbatim>\<open>contains\<close>, \<^verbatim>\<open>operator[]\<close> on a
  key that was checked, and the conversions to \<^verbatim>\<open>std::string\<close> and \<^verbatim>\<open>double\<close>, which
  throw on a value of another type. \<^verbatim>\<open>beam::ValidateJsonKeysOrThrow\<close> (libbeam) throws
  \<^verbatim>\<open>std::invalid_argument\<close> when a required key is missing.
\<close>

fun json_contains :: "'n json \<Rightarrow> string \<Rightarrow> bool" where
  "json_contains (JObject kvs) k = (map_of kvs k \<noteq> None)"
| "json_contains _ k = False"

fun json_at :: "'n json \<Rightarrow> string \<Rightarrow> 'n json" where
  "json_at (JObject kvs) k = (case map_of kvs k of Some v \<Rightarrow> v | None \<Rightarrow> JNull)"
| "json_at _ k = JNull"

fun json_get_string :: "'n json \<Rightarrow> error + string" where
  "json_get_string (JString s) = Inr s"
| "json_get_string _ = Inl json_type_error"

fun json_get_double :: "'n json \<Rightarrow> error + 'n" where
  "json_get_double (JNumber x) = Inr x"
| "json_get_double _ = Inl json_type_error"

definition ValidateJsonKeysOrThrow :: "string list \<Rightarrow> 'n json \<Rightarrow> error + unit" where
  "ValidateJsonKeysOrThrow required_keys J =
     (if list_all (json_contains J) required_keys then Inr ()
      else Inl (invalid_argument ''missing required json key''))"

definition and_then :: "error + 'a \<Rightarrow> ('a \<Rightarrow> error + 'b) \<Rightarrow> error + 'b" where
  "and_then r f = (case r of Inl e \<Rightarrow> Inl e | Inr x \<Rightarrow> f x)"

text \<open>
  \<^verbatim>\<open>Params::LoadJson\<close>, in the three blocks the source marks with comments
  (\<^verbatim>\<open>// load loop closure params\<close>, \<^verbatim>\<open>// load submap refinement params\<close>,
  \<^verbatim>\<open>// load submap alignment params\<close>). An empty relative path leaves the default.
\<close>

definition load_loop_closure ::
  "('T, 'c, 'n, 'sr) env \<Rightarrow> 'n LoopClosureParams \<Rightarrow> 'n json \<Rightarrow> error + 'n LoopClosureParams" where
  "load_loop_closure env lc J_loop_closure =
     and_then (ValidateJsonKeysOrThrow
                 [''candidate_search_config'', ''refinement_config'',
                  ''local_mapper_covariance'', ''loop_closure_covariance''] J_loop_closure) (\<lambda>_.
     and_then (json_get_string (json_at J_loop_closure ''candidate_search_config''))
       (\<lambda>candidate_search_config_rel.
     let lc1 = (if candidate_search_config_rel \<noteq> [] then
                  lc\<lparr>candidate_search_config :=
                       CombinePaths env (GetBeamSlamConfigPath env) candidate_search_config_rel\<rparr>
                else lc) in
     and_then (json_get_double (json_at J_loop_closure ''loop_closure_covariance''))
       (\<lambda>lc_cov_dia.
     and_then (json_get_double (json_at J_loop_closure ''local_mapper_covariance''))
       (\<lambda>lm_cov_dia.
     let lc2 = lc1\<lparr>loop_closure_covariance := lc_cov_dia,
                   local_mapper_covariance := lm_cov_dia\<rparr> in
     and_then (json_get_string (json_at J_loop_closure ''refinement_config''))
       (\<lambda>refinement_config_rel.
     Inr (if refinement_config_rel \<noteq> [] then
            lc2\<lparr>refinement_config :=
                  CombinePaths env (GetBeamSlamConfigPath env) refinement_config_rel\<rparr>
          else lc2))))))"

definition load_submap_refinement ::
  "('T, 'c, 'n, 'sr) env \<Rightarrow> SubmapRefinementParams \<Rightarrow> 'n json \<Rightarrow> error + SubmapRefinementParams" where
  "load_submap_refinement env sr J_submap_refinement =
     and_then (ValidateJsonKeysOrThrow [''scan_registration_config'', ''matcher_config'']
                 J_submap_refinement) (\<lambda>_.
     and_then (json_get_string (json_at J_submap_refinement ''scan_registration_config''))
       (\<lambda>scan_registration_config_rel.
     let sr1 = (if scan_registration_config_rel \<noteq> [] then
                  sr\<lparr>scan_registration_config :=
                       CombinePaths env (GetBeamSlamConfigPath env) scan_registration_config_rel\<rparr>
                else sr) in
     and_then (json_get_string (json_at J_submap_refinement ''matcher_config''))
       (\<lambda>matcher_config_rel.
     Inr (if matcher_config_rel \<noteq> [] then
            sr1\<lparr>sr_matcher_config :=
                  CombinePaths env (GetBeamSlamConfigPath env) matcher_config_rel\<rparr>
          else sr1))))"

definition load_submap_alignment ::
  "('T, 'c, 'n, 'sr) env \<Rightarrow> SubmapAlignmentParams \<Rightarrow> 'n json \<Rightarrow> error + SubmapAlignmentParams" where
  "load_submap_alignment env sa J_submap_alignment =
     and_then (ValidateJsonKeysOrThrow [''matcher_config''] J_submap_alignment) (\<lambda>_.
     and_then (json_get_string (json_at J_submap_alignment ''matcher_config''))
       (\<lambda>matcher_config_rel.
     Inr (if matcher_config_rel \<noteq> [] then
            sa\<lparr>sa_matcher_config :=
                  CombinePaths env (GetBeamSlamConfigPath env) matcher_config_rel\<rparr>
          else sa)))"

definition LoadJson ::
  "('T, 'c, 'n, 'sr) env \<Rightarrow> 'n Params \<Rightarrow> string \<Rightarrow> error + 'n Params" where
  "LoadJson env p config_path =
     (if config_path = [] then Inr p
      else case ReadJson env config_path of
        None \<Rightarrow> Inl (runtime_error ''Unable to read global map refinement config'')
      | Some J \<Rightarrow>
          and_then (ValidateJsonKeysOrThrow
                      [''loop_closure'', ''submap_refinement'', ''submap_alignment''] J) (\<lambda>_.
          and_then (load_loop_closure env (loop_closure p) (json_at J ''loop_closure''))
            (\<lambda>lc.
          and_then (load_submap_refinement env (submap_refinement_params p)
                      (json_at J ''submap_refinement''))
            (\<lambda>sr.
          and_then (load_submap_alignment env (submap_alignment_params p)
                      (json_at J ''submap_alignment''))
            (\<lambda>sa.
          Inr (p\<lparr>loop_closure := lc, submap_refinement_params := sr,
                  submap_alignment_params := sa\<rparr>))))))"

text \<open>The four \<^verbatim>\<open>ValidateJsonKeysOrThrow\<close> checks of \<^verbatim>\<open>LoadJson\<close> taken together.\<close>

definition required_keys_present :: "'n json \<Rightarrow> bool" where
  "required_keys_present J \<longleftrightarrow>
     list_all (json_contains J) [''loop_closure'', ''submap_refinement'', ''submap_alignment'']
     \<and> list_all (json_contains (json_at J ''loop_closure''))
         [''candidate_search_config'', ''refinement_config'', ''local_mapper_covariance'',
          ''loop_closure_covariance'']
     \<and> list_all (json_contains (json_at J ''submap_refinement''))
         [''scan_registration_config'', ''matcher_config'']
     \<and> list_all (json_contains (json_at J ''submap_alignment'')) [''matcher_config'']"

text \<open>
  \<^verbatim>\<open>Setup\<close>: the matcher for submap alignment is chosen once, from the type named in the
  alignment matcher config; any other type throws.
\<close>

definition Setup ::
  "('T, 'c, 'n, 'sr) env \<Rightarrow> ('T, 'c, 'n) GlobalMapRefinement
     \<Rightarrow> error + ('T, 'c, 'n) GlobalMapRefinement" where
  "Setup env st =
     (let m_conf = sa_matcher_config (submap_alignment_params (params st));
          matcher_type = GetTypeFromConfig env m_conf
      in if matcher_type = LOAM then
           (let ceres_config = GetAbsoluteConfigPathFromJson env m_conf ''ceres_config''
            in Inr (st\<lparr>matcher_loam := Some (LoamMatcher m_conf ceres_config)\<rparr>))
         else if matcher_type = ICP then Inr (st\<lparr>matcher := Some (IcpMatcher m_conf)\<rparr>)
         else if matcher_type = GICP then Inr (st\<lparr>matcher := Some (GicpMatcher m_conf)\<rparr>)
         else if matcher_type = NDT then Inr (st\<lparr>matcher := Some (NdtMatcher m_conf)\<rparr>)
         else Inl (invalid_argument ''invalid json''))"

text \<open>
  The object before the constructor body runs: the default member initialisers of the
  header (the default parameters, the skip count and the prior noise are arguments), an
  empty summary, no matcher.
\<close>

definition default_object ::
  "'n Params \<Rightarrow> nat \<Rightarrow> 'n \<Rightarrow> ('T, 'c) Submap list \<Rightarrow> ('T, 'c, 'n) GlobalMapRefinement" where
  "default_object p skip noise submaps =
     \<lparr>params = p, global_map = submaps,
      summary = \<lparr>submap_refinement = Map.empty, submap_alignment = Map.empty\<rparr>,
      matcher_loam = None, matcher = None,
      pgo_skip_first_n_submaps = skip, pose_prior_noise = noise, events = []\<rparr>"

text \<open>The two constructors that take a loaded global map: from parameters, from a config path.\<close>

definition GlobalMapRefinement_of_params ::
  "('T, 'c, 'n, 'sr) env \<Rightarrow> 'n Params \<Rightarrow> nat \<Rightarrow> 'n \<Rightarrow> ('T, 'c) Submap list
     \<Rightarrow> error + ('T, 'c, 'n) GlobalMapRefinement" where
  "GlobalMapRefinement_of_params env p skip noise submaps =
     Setup env (default_object p skip noise submaps)"

definition GlobalMapRefinement_of_config ::
  "('T, 'c, 'n, 'sr) env \<Rightarrow> 'n Params \<Rightarrow> nat \<Rightarrow> 'n \<Rightarrow> ('T, 'c) Submap list \<Rightarrow> string
     \<Rightarrow> error + ('T, 'c, 'n) GlobalMapRefinement" where
  "GlobalMapRefinement_of_config env defaults skip noise submaps config_path =
     (case LoadJson env defaults config_path of
        Inl e \<Rightarrow> Inl e
      | Inr p \<Rightarrow> Setup env (default_object p skip noise submaps))"

section \<open>Pose-graph optimisation\<close>

text \<open>
  Modelled from the spec: \<^verbatim>\<open>Submap\<close>, \<^verbatim>\<open>GlobalMap::UpdateSubmapPoses\<close> and
  \<^verbatim>\<open>bs_constraints::Pose3DStampedTransaction\<close> are not among the sources. A submap's
  position and orientation variables carry its stamp and its current \<^verbatim>\<open>T_WORLD_SUBMAP\<close>;
  \<^verbatim>\<open>UpdateSubmapPoses\<close> gives every submap the graph's value for its stamp.
\<close>

definition Submap_UpdatePose ::
  "('T, 'n) HashGraph \<Rightarrow> ('T, 'c) Submap \<Rightarrow> ('T, 'c) Submap" where
  "Submap_UpdatePose graph submap =
     (case variables graph (stamp submap) of
        None \<Rightarrow> submap
      | Some v \<Rightarrow> submap\<lparr>T_WORLD_SUBMAP := v\<rparr>)"

definition prior_transaction ::
  "('T, 'c, 'n) GlobalMapRefinement \<Rightarrow> ('T, 'c) Submap \<Rightarrow> ('T, 'n) Transaction" where
  "prior_transaction st first_submap =
     \<lparr>added_variables = [(stamp first_submap, T_WORLD_SUBMAP first_submap)],
      added_constraints =
        [AbsolutePose (stamp first_submap) (T_WORLD_SUBMAP first_submap) (pose_prior_noise st)
           ''GlobalMapRefinement::RunPoseGraphOptimization'']\<rparr>"

text \<open>
  The body of the loop \<^verbatim>\<open>for (int i = 1; i < num_submaps; i++)\<close>, and the loop. Every index
  the loop reaches is inside the vector, so its two \<^verbatim>\<open>at\<close> calls do not throw.
\<close>

definition relative_transaction ::
  "('T, 'c, 'n, 'sr) env \<Rightarrow> ('T, 'c, 'n) GlobalMapRefinement \<Rightarrow> ('T, 'c) Submap list \<Rightarrow> nat
     \<Rightarrow> ('T, 'n) Transaction" where
  "relative_transaction env st submaps i =
     (let current_submap = submaps ! i;
          previous_submap = submaps ! (i - 1);
          T_PREVIOUS_CURRENT =
            compose env (InvertTransform env (T_WORLD_SUBMAP previous_submap))
              (T_WORLD_SUBMAP current_submap)
      in \<lparr>added_variables = [(stamp current_submap, T_WORLD_SUBMAP current_submap)],
          added_constraints =
            [RelativePose (stamp previous_submap) (stamp current_submap) T_PREVIOUS_CURRENT
               (local_mapper_covariance (loop_closure (params st)))
               ''GlobalMap::InitiateNewSubmapPose'']\<rparr>)"

fun add_relative_poses ::
  "('T, 'c, 'n, 'sr) env \<Rightarrow> ('T, 'c, 'n) GlobalMapRefinement \<Rightarrow> ('T, 'c) Submap list \<Rightarrow> nat list
     \<Rightarrow> ('T, 'n) HashGraph \<Rightarrow> ('T, 'c, 'n) event list
     \<Rightarrow> ('T, 'n) HashGraph \<times> ('T, 'c, 'n) event list" where
  "add_relative_poses env st submaps [] graph evs = (graph, evs)"
| "add_relative_poses env st submaps (i # is) graph evs =
     (if i < 1 then add_relative_poses env st submaps is graph evs
      else
        let new_transaction = relative_transaction env st submaps i
        in add_relative_poses env st submaps is (update graph new_transaction)
             (evs @ [GraphUpdate new_transaction]))"

text \<open>
  The chain graph: the prior on the first submap, then the relative constraints.
  \<^verbatim>\<open>submaps.at(0)\<close> throws on an empty vector.
\<close>

definition chain_graph ::
  "('T, 'c, 'n, 'sr) env \<Rightarrow> ('T, 'c, 'n) GlobalMapRefinement \<Rightarrow> ('T, 'c) Submap list
     \<Rightarrow> error + ('T, 'n) HashGraph \<times> ('T, 'c, 'n) event list" where
  "chain_graph env st submaps =
     (case submaps of
        [] \<Rightarrow> Inl out_of_range
      | first_submap # _ \<Rightarrow>
          let tx = prior_transaction st first_submap
          in Inr (add_relative_poses env st submaps [1 ..< length submaps]
                    (update make_shared_graph tx) [GraphUpdate tx]))"

text \<open>
  The loop over the candidates of one query. A matched index at or after
  \<^verbatim>\<open>query_index - 1\<close> is logged and skipped; \<^verbatim>\<open>submaps.at\<close> throws on an index outside the
  vector (a negative \<^verbatim>\<open>int\<close> converts to a huge \<^verbatim>\<open>size_t\<close>); a refinement that is not
  successful is skipped; a successful one merges one relative constraint.
\<close>

fun candidates_loop ::
  "('T, 'c, 'n, 'sr) env \<Rightarrow> string \<Rightarrow> nat \<Rightarrow> (int \<times> 'T) list \<Rightarrow> ('T, 'n) Transaction
     \<Rightarrow> ('T, 'c, 'n) GlobalMapRefinement
     \<Rightarrow> ('T, 'n) Transaction outcome \<times> ('T, 'c, 'n) GlobalMapRefinement" where
  "candidates_loop env lc_results_path_refinement query_index [] transaction st =
     (Returned transaction, st)"
| "candidates_loop env lc_results_path_refinement query_index
       ((matched_index, T_MATCH_QUERY) # rest) transaction st =
     (if matched_index \<ge> int query_index - 1 then
        candidates_loop env lc_results_path_refinement query_index rest transaction
          (emit [LogError ''Error in candidate search implementation, please fix!''] st)
      else if matched_index < 0 \<or> length (global_map st) \<le> nat matched_index then
        (Thrown out_of_range, st)
      else if length (global_map st) \<le> query_index then (Thrown out_of_range, st)
      else
        let matched_submap = global_map st ! nat matched_index;
            query_submap = global_map st ! query_index;
            results = reloc_RunRefinement env matched_submap query_submap T_MATCH_QUERY
                        lc_results_path_refinement;
            st1 = emit [RunRefinement matched_index query_index T_MATCH_QUERY] st
        in if \<not> fst results then
             candidates_loop env lc_results_path_refinement query_index rest transaction st1
           else
             candidates_loop env lc_results_path_refinement query_index rest
               (merge transaction
                  \<lparr>added_variables = [],
                   added_constraints =
                     [RelativePose (stamp matched_submap) (stamp query_submap) (snd results)
                        (loop_closure_covariance (loop_closure (params st)))
                        ''GlobalMap::RunLoopClosure'']\<rparr>)
               st1)"

text \<open>
  The body of the sweep for one query index: search, and when candidates were found,
  process them, update the graph with the merged transaction, solve, and push the poses
  back to the submaps. \<^verbatim>\<open>submaps.at(query_index)\<close> is bounds-checked.
  \<^verbatim>\<open>submaps.size()\<close> is \<open>num_submaps\<close>: the vector is a local copy that is never
  resized. The search fills \<^verbatim>\<open>matched_indices\<close> and \<^verbatim>\<open>Ts_MATCH_QUERY\<close>, read at the same
  index: here one list of pairs. An empty candidate list leaves the graph as it is
  (\<^verbatim>\<open>continue\<close>).
\<close>

definition query_step ::
  "('T, 'c, 'n, 'sr) env \<Rightarrow> string \<Rightarrow> string \<Rightarrow> nat \<Rightarrow> nat \<Rightarrow> ('T, 'n) HashGraph
     \<Rightarrow> ('T, 'c, 'n) GlobalMapRefinement
     \<Rightarrow> unit outcome \<times> ('T, 'n) HashGraph \<times> ('T, 'c, 'n) GlobalMapRefinement" where
  "query_step env lc_results_path_refinement lc_results_path_candidate_search num_submaps
       query_index graph st =
     (if length (global_map st) \<le> query_index then (Thrown out_of_range, graph, st)
      else
        let use_initial_poses = False;
            ignore_last_n_submaps = int num_submaps - int query_index + 1;
            candidates =
              reloc_FindRelocCandidates env (global_map st) (global_map st ! query_index)
                ignore_last_n_submaps use_initial_poses lc_results_path_candidate_search;
            st1 = emit [FindRelocCandidates query_index ignore_last_n_submaps use_initial_poses] st
        in if length candidates = 0 then (Returned (), graph, st1)
           else
             (case candidates_loop env lc_results_path_refinement query_index candidates
                     empty_transaction st1 of
                (Thrown e, st2) \<Rightarrow> (Thrown e, graph, st2)
              | (Returned transaction, st2) \<Rightarrow>
                  (let graph' = optimize env (update graph transaction);
                       st3 = emit [GraphUpdate transaction, GraphOptimize, UpdateSubmapPoses] st2
                   in (Returned (), graph',
                       st3\<lparr>global_map := map (Submap_UpdatePose graph') (global_map st3)\<rparr>))))"

text \<open>
  The sweep \<^verbatim>\<open>for (int query_index = pgo_skip_first_n_submaps_; query_index < num_submaps - 1;
  query_index++)\<close>. It is entered only after \<^verbatim>\<open>submaps.at(0)\<close> succeeded, so \<open>num_submaps\<close>
  is at least 1 and \<open>num_submaps - 1\<close> does not wrap.
\<close>

function sweep ::
  "('T, 'c, 'n, 'sr) env \<Rightarrow> string \<Rightarrow> string \<Rightarrow> nat \<Rightarrow> nat \<Rightarrow> ('T, 'n) HashGraph
     \<Rightarrow> ('T, 'c, 'n) GlobalMapRefinement
     \<Rightarrow> bool outcome \<times> ('T, 'c, 'n) GlobalMapRefinement" where
  "sweep env lc_results_path_refinement lc_results_path_candidate_search num_submaps query_index
       graph st =
     (if query_index < num_submaps - 1 then
        (case query_step env lc_results_path_refinement lc_results_path_candidate_search
                num_submaps query_index graph st of
           (Thrown e, graph', st') \<Rightarrow> (Thrown e, st')
         | (Returned _, graph', st') \<Rightarrow>
             sweep env lc_results_path_refinement lc_results_path_candidate_search num_submaps
               (query_index + 1) graph' st')
      else (Returned True, st))"
  by pat_completeness auto
termination
  by (relation "measure (\<lambda>(env, p1, p2, num_submaps, query_index, graph, st).
                            num_submaps - 1 - query_index)")
     simp_all

declare sweep.simps [simp del]

definition RunPoseGraphOptimization ::
  "('T, 'c, 'n, 'sr) env \<Rightarrow> ('T, 'c, 'n) GlobalMapRefinement \<Rightarrow> string
     \<Rightarrow> bool outcome \<times> ('T, 'c, 'n) GlobalMapRefinement" where
  "RunPoseGraphOptimization env st output_path =
     (let submaps = global_map st;
          num_submaps = length submaps;
          st1 = (if num_submaps \<le> pgo_skip_first_n_submaps st then
                   emit [LogError ''Global map size not large enough to run PGO''] st
                 else st);
          lc_results_path_refinement = CombinePaths env output_path ''refinement'';
          lc_results_path_candidate_search = CombinePaths env output_path ''candidate_search''
      in case create_directory env lc_results_path_refinement st1 of
           (Thrown e, st2) \<Rightarrow> (Thrown e, st2)
         | (Returned _, st2) \<Rightarrow>
             (case create_directory env lc_results_path_candidate_search st2 of
                (Thrown e, st3) \<Rightarrow> (Thrown e, st3)
              | (Returned _, st3) \<Rightarrow>
                  (case chain_graph env st3 submaps of
                     Inl e \<Rightarrow> (Thrown e, st3)
                   | Inr (graph, evs) \<Rightarrow>
                       sweep env lc_results_path_refinement lc_results_path_candidate_search
                         num_submaps (pgo_skip_first_n_submaps st) graph (emit evs st3))))"

section \<open>A concrete instance\<close>

text \<open>
  Transforms are integers under addition (the inverse is negation), a cloud is the
  integer offset of its frame, scalars are integers. Stamps are whole seconds, printed
  as \<^verbatim>\<open>std::to_string\<close> prints a \<^verbatim>\<open>double\<close>. The only directory is \<^verbatim>\<open>/out\<close>, and a
  directory can be made directly inside it. The instance is used to run the functions
  on explicit inputs.
\<close>

fun show_nat :: "nat \<Rightarrow> string" where
  "show_nat n =
     (if n < 10 then [''0123456789'' ! n]
      else show_nat (n div 10) @ [''0123456789'' ! (n mod 10)])"

declare show_nat.simps [simp del]

definition demo_json :: "int json" where
  "demo_json = JObject
     [(''loop_closure'', JObject [(''candidate_search_config'', JString []),
                                  (''refinement_config'', JString []),
                                  (''local_mapper_covariance'', JNumber 2),
                                  (''loop_closure_covariance'', JNumber 1)]),
      (''submap_refinement'', JObject [(''scan_registration_config'', JString []),
                                       (''matcher_config'', JString [])]),
      (''submap_alignment'', JObject [(''matcher_config'', JString ''icp.json'')])]"

definition demo_env :: "(int, int, int, nat) env" where
  "demo_env =
     \<lparr>InvertTransform = uminus,
      compose = (+),
      rotation_deg = (\<lambda>T. 0),
      translation_mm = (\<lambda>T. \<bar>T\<bar> * 1000),
      toSec_string = (\<lambda>t. show_nat (sec t) @ ''.000000''),
      CombinePaths = (\<lambda>a b. a @ ''/'' @ b),
      fs_exists = (\<lambda>p. p = ''/out''),
      fs_mkdir = (\<lambda>p. take 5 p = ''/out/'' \<and> drop 5 p \<noteq> [] \<and> CHR ''/'' \<notin> set (drop 5 p)),
      ReadJson = (\<lambda>p. if p = ''/cfg.json'' then Some demo_json
                      else if p = ''/nokeys.json'' then Some (JObject []) else None),
      GetBeamSlamConfigPath = ''/config'',
      GetTypeFromConfig = (\<lambda>p. if p = ''/config/icp.json'' then ICP
                               else if p = ''/config/loam.json'' then LOAM else UNKNOWN),
      GetAbsoluteConfigPathFromJson = (\<lambda>p k. p),
      GetLidarLoamPointsInWorldFrame =
        (\<lambda>s use_initials. 100 + (if use_initials then T_WORLD_SUBMAP_INIT s else T_WORLD_SUBMAP s)),
      GetLidarPointsInWorldFrameCombined =
        (\<lambda>s use_initials. if use_initials then T_WORLD_SUBMAP_INIT s else T_WORLD_SUBMAP s),
      TransformPointCloud = (\<lambda>T c. T + c),
      pcl_transformPointCloud = (\<lambda>T c. T + c),
      matcher_Match = (\<lambda>m r t. True),
      matcher_ApplyResult = (\<lambda>m r t seed. seed + 1),
      sr_Create = (\<lambda>a b c d. Inr 0),
      sr_Clear = (\<lambda>sr. 0),
      sr_RegisterNewScan =
        (\<lambda>sr sp. (if sr = 1 then None
                   else Some \<lparr>added_variables = [(sp_stamp sp, T_REFFRAME_BASELINK sp)],
                              added_constraints = []\<rparr>, Suc sr)),
      graph_solve = (\<lambda>g t. 7),
      reloc_FindRelocCandidates =
        (\<lambda>submaps q ignore_last_n use_initial_poses path.
           if stamp q = Time 3 0 then [(2, 40), (0, 50)] else []),
      reloc_RunRefinement = (\<lambda>m q T path. (True, T + 1))\<rparr>"

definition demo_params :: "int Params" where
  "demo_params =
     \<lparr>loop_closure = \<lparr>candidate_search_config = [], refinement_config = [],
                      local_mapper_covariance = 2, loop_closure_covariance = 1\<rparr>,
      submap_refinement_params = \<lparr>scan_registration_config = [], sr_matcher_config = []\<rparr>,
      submap_alignment_params = \<lparr>sa_matcher_config = ''/config/icp.json''\<rparr>\<rparr>"

definition demo_submap :: "nat \<Rightarrow> (int, int) Submap" where
  "demo_submap k =
     \<lparr>stamp = Time k 0, T_WORLD_SUBMAP = 10 * int k, T_WORLD_SUBMAP_INIT = 10 * int k,
      lidar_keyframes = [\<lparr>sp_stamp = Time k 100, T_REFFRAME_BASELINK = 1, sp_cloud = 0\<rparr>,
                         \<lparr>sp_stamp = Time k 200, T_REFFRAME_BASELINK = 2, sp_cloud = 0\<rparr>]\<rparr>"

definition demo_object :: "nat \<Rightarrow> nat \<Rightarrow> (int, int, int) GlobalMapRefinement" where
  "demo_object n skip =
     (default_object demo_params skip 0 (map demo_submap [0 ..< n]))
       \<lparr>matcher := Some (IcpMatcher ''/config/icp.json'')\<rparr>"

text \<open>The same object set up with the feature-based matcher.\<close>

definition demo_loam_object :: "nat \<Rightarrow> nat \<Rightarrow> (int, int, int) GlobalMapRefinement" where
  "demo_loam_object n skip =
     (default_object demo_params skip 0 (map demo_submap [0 ..< n]))
       \<lparr>matcher_loam := Some (LoamMatcher ''/config/loam.json'' ''/config/loam.json'')\<rparr>"

text \<open>Two submaps that have drifted: the current pose differs from the initial one.\<close>

definition drifted_ref :: "(int, int) Submap" where
  "drifted_ref = \<lparr>stamp = Time 1 0, T_WORLD_SUBMAP = 13, T_WORLD_SUBMAP_INIT = 10,
                   lidar_keyframes = []\<rparr>"

definition drifted_tgt :: "(int, int) Submap" where
  "drifted_tgt = \<lparr>stamp = Time 2 0, T_WORLD_SUBMAP = 25, T_WORLD_SUBMAP_INIT = 20,
                   lidar_keyframes = []\<rparr>"

text \<open>One submap refined once, and refined again from the state the first call left.\<close>

definition refined_once ::
  "bool outcome \<times> (int, int) Submap \<times> (int, int, int) GlobalMapRefinement" where
  "refined_once = RefineSubmap demo_env (demo_object 2 2) (demo_submap 0) ''/out''"

definition refined_twice ::
  "bool outcome \<times> (int, int) Submap \<times> (int, int, int) GlobalMapRefinement" where
  "refined_twice =
     RefineSubmap demo_env (snd (snd refined_once)) (fst (snd refined_once)) ''/out''"


text \<open>The matcher of the alignment stage forced to fail on every call.\<close>

definition failing_env :: "(int, int, int, nat) env" where
  "failing_env = demo_env\<lparr>matcher_Match := (\<lambda>m r t. False)\<rparr>"



text \<open>Parameters whose alignment matcher config names no known matcher type.\<close>

definition bad_params :: "int Params" where
  "bad_params = demo_params\<lparr>submap_alignment_params := \<lparr>sa_matcher_config = ''/config/other.json''\<rparr>\<rparr>"

section \<open>Reading the event log\<close>

text \<open>
  The events a call added to the log, the candidate searches among a list of events
  (query index and ignore window), the refinements attempted (matched index, query
  index), and the number of solves that precede the first candidate search.
\<close>

definition new_events ::
  "('T, 'c, 'n) GlobalMapRefinement \<Rightarrow> ('T, 'c, 'n) GlobalMapRefinement \<Rightarrow> ('T, 'c, 'n) event list" where
  "new_events st st' = drop (length (events st)) (events st')"

fun is_search :: "('T, 'c, 'n) event \<Rightarrow> bool" where
  "is_search (FindRelocCandidates q i b) = True"
| "is_search _ = False"

fun search_calls :: "('T, 'c, 'n) event list \<Rightarrow> (nat \<times> int) list" where
  "search_calls [] = []"
| "search_calls (FindRelocCandidates q i b # es) = (q, i) # search_calls es"
| "search_calls (_ # es) = search_calls es"

fun refinement_calls :: "('T, 'c, 'n) event list \<Rightarrow> (int \<times> nat) list" where
  "refinement_calls [] = []"
| "refinement_calls (RunRefinement m q T # es) = (m, q) # refinement_calls es"
| "refinement_calls (_ # es) = refinement_calls es"

fun is_solve :: "('T, 'c, 'n) event \<Rightarrow> bool" where
  "is_solve GraphOptimize = True"
| "is_solve _ = False"



definition pgo_events ::
  "('T, 'c, 'n, 'sr) env \<Rightarrow> ('T, 'c, 'n) GlobalMapRefinement \<Rightarrow> string \<Rightarrow> ('T, 'c, 'n) event list" where
  "pgo_events env st output_path =
     new_events st (snd (RunPoseGraphOptimization env st output_path))"

text \<open>
  What the candidates of query \<open>q\<close> may add to the log: no candidate search, no solve,
  and refinements only of matched indices before \<open>q - 1\<close>.
\<close>

definition quiet :: "nat \<Rightarrow> ('T, 'c, 'n) event list \<Rightarrow> bool" where
  "quiet q es \<longleftrightarrow>
     search_calls es = [] \<and>
     list_all (\<lambda>(m, q'). m < int q - 1 \<and> q' = q) (refinement_calls es) \<and>
     filter is_solve es = []"

text \<open>
  The two result directories of \<^verbatim>\<open>RunPoseGraphOptimization\<close> can be made, and what the
  function logs before it touches the graph: the second directory is tried only when the
  first call returned.
\<close>

definition pgo_directories :: "('T, 'c, 'n, 'sr) env \<Rightarrow> string \<Rightarrow> bool" where
  "pgo_directories env output_path \<longleftrightarrow>
     can_create env (CombinePaths env output_path ''refinement'')
     \<and> can_create env (CombinePaths env output_path ''candidate_search'')"

definition pgo_preamble ::
  "('T, 'c, 'n, 'sr) env \<Rightarrow> ('T, 'c, 'n) GlobalMapRefinement \<Rightarrow> string \<Rightarrow> ('T, 'c, 'n) event list" where
  "pgo_preamble env st output_path =
     (if length (global_map st) \<le> pgo_skip_first_n_submaps st
      then [LogError ''Global map size not large enough to run PGO''] else [])
     @ CreateDirectory (CombinePaths env output_path ''refinement'')
       # (if can_create env (CombinePaths env output_path ''refinement'')
          then [CreateDirectory (CombinePaths env output_path ''candidate_search'')] else [])"

section \<open>Facts\<close>

subsection \<open>Facts about the event log\<close>

lemma events_emit [simp]: "events (emit es st) = events st @ es"
  by (simp add: emit_def)

lemma global_map_emit [simp]: "global_map (emit es st) = global_map st"
  by (simp add: emit_def)

lemma params_emit [simp]: "params (emit es st) = params st"
  by (simp add: emit_def)

lemma summary_emit [simp]: "summary (emit es st) = summary st"
  by (simp add: emit_def)

lemma search_calls_append [simp]: "search_calls (xs @ ys) = search_calls xs @ search_calls ys"
  by (induction xs rule: search_calls.induct) simp_all

lemma refinement_calls_append [simp]:
  "refinement_calls (xs @ ys) = refinement_calls xs @ refinement_calls ys"
  by (induction xs rule: refinement_calls.induct) simp_all

lemma new_events_append [simp]: "events st' = events st @ es \<Longrightarrow> new_events st st' = es"
  by (simp add: new_events_def)

lemma quiet_Nil [simp]: "quiet q []"
  by (simp add: quiet_def)

lemma candidates_loop_events:
  "\<exists>es. events (snd (candidates_loop env p q cs tx st)) = events st @ es \<and> quiet q es"
proof (induction cs arbitrary: tx st)
  case Nil
  then show ?case by simp
next
  case (Cons c cs)
  obtain m T where c: "c = (m, T)" by (cases c)
  show ?case
  proof (cases "m \<ge> int q - 1")
    case True
    let ?st1 = "emit [LogError ''Error in candidate search implementation, please fix!''] st"
    obtain es where es: "events (snd (candidates_loop env p q cs tx ?st1)) = events ?st1 @ es" "quiet q es"
      using Cons.IH by blast
    have "quiet q (LogError ''Error in candidate search implementation, please fix!'' # es)"
      using es(2) by (simp add: quiet_def)
    then show ?thesis using True es(1) by (simp add: c)
  next
    case False
    show ?thesis
    proof (cases "m < 0 \<or> length (global_map st) \<le> nat m \<or> length (global_map st) \<le> q")
      case True
      then show ?thesis using False by (auto simp: c)
    next
      case ok: False
      let ?st1 = "emit [RunRefinement m q T] st"
      have *: "\<And>tx'. \<exists>es. events (snd (candidates_loop env p q cs tx' ?st1)) = events st @ es \<and> quiet q es"
      proof -
        fix tx'
        obtain es where es: "events (snd (candidates_loop env p q cs tx' ?st1)) = events ?st1 @ es" "quiet q es"
          using Cons.IH by blast
        have "quiet q (RunRefinement m q T # es)"
          using es(2) False by (simp add: quiet_def)
        then show "\<exists>es. events (snd (candidates_loop env p q cs tx' ?st1)) = events st @ es \<and> quiet q es"
          using es(1) by simp
      qed
      show ?thesis using False ok * by (simp add: c Let_def)
    qed
  qed
qed

lemma candidates_loop_global_map [simp]:
  "global_map (snd (candidates_loop env p q cs tx st)) = global_map st"
  by (induction cs arbitrary: tx st) (auto simp: Let_def)

lemma query_step_length:
  "length (global_map (snd (snd (query_step env p1 p2 n q g st)))) = length (global_map st)"
  by (simp add: query_step_def Let_def split: prod.splits outcome.splits)
     (metis candidates_loop_global_map global_map_emit snd_conv)

lemma query_step_events:
  assumes inside: "q < length (global_map st)"
  shows "\<exists>es. events (snd (snd (query_step env p1 p2 n q g st)))
           = events st @ FindRelocCandidates q (int n - int q + 1) False # es
        \<and> search_calls es = []
        \<and> list_all (\<lambda>(m, q'). m < int q - 1 \<and> q' = q) (refinement_calls es)
        \<and> length (filter is_solve es) \<le> 1"
proof -
  let ?st1 = "emit [FindRelocCandidates q (int n - int q + 1) False] st"
  let ?cs = "reloc_FindRelocCandidates env (global_map st) (global_map st ! q)
               (int n - int q + 1) False p2"
  show ?thesis
  proof (cases "length ?cs = 0")
    case True
    then show ?thesis using inside by (simp add: query_step_def Let_def)
  next
    case False
    obtain out st2 where cl: "candidates_loop env p1 q ?cs empty_transaction ?st1 = (out, st2)"
      by (cases "candidates_loop env p1 q ?cs empty_transaction ?st1")
    obtain es where es: "events st2 = events ?st1 @ es" "quiet q es"
      using candidates_loop_events [of env p1 q ?cs empty_transaction ?st1] cl by auto
    show ?thesis
    proof (cases out)
      case (Thrown e)
      then show ?thesis
        using False cl es inside by (simp add: query_step_def Let_def quiet_def)
    next
      case (Returned tx)
      then show ?thesis
        using False cl es inside by (simp add: query_step_def Let_def quiet_def)
    qed
  qed
qed




lemma sweep_not_false: "fst (sweep env p1 p2 n q g st) \<noteq> Returned False"
proof (induction env p1 p2 n q g st rule: sweep.induct)
  case (1 env p1 p2 n q g st)
  show ?case
  proof (cases "q < n - 1")
    case False
    then show ?thesis by (simp add: sweep.simps)
  next
    case True
    obtain out g' st' where qs: "query_step env p1 p2 n q g st = (out, g', st')"
      by (cases "query_step env p1 p2 n q g st")
    show ?thesis
    proof (cases out)
      case (Thrown e)
      then show ?thesis using True qs by (simp add: sweep.simps)
    next
      case (Returned u)
      then show ?thesis using True qs 1 [OF True qs [symmetric, unfolded Returned]]
        by (simp add: sweep.simps)
    qed
  qed
qed

lemma sweep_events:
  assumes len: "length (global_map st) = n"
  shows "\<exists>es. events (snd (sweep env p1 p2 n q g st)) = events st @ es
      \<and> prefix (search_calls es) (map (\<lambda>q. (q, int n - int q + 1)) [q ..< n - 1])
      \<and> (\<forall>b. fst (sweep env p1 p2 n q g st) = Returned b \<longrightarrow>
             search_calls es = map (\<lambda>q. (q, int n - int q + 1)) [q ..< n - 1])
      \<and> list_all (\<lambda>(m, q'). m < int q' - 1) (refinement_calls es)
      \<and> (es = [] \<or> is_search (hd es))
      \<and> length (filter is_solve es) \<le> length (search_calls es)"
  using len
proof (induction env p1 p2 n q g st rule: sweep.induct)
  case (1 env p1 p2 n q g st)
  show ?case
  proof (cases "q < n - 1")
    case False
    then show ?thesis by (simp add: sweep.simps)
  next
    case True
    then have upt: "[q ..< n - 1] = q # [q + 1 ..< n - 1]"
      by (simp add: upt_conv_Cons)
    have inside: "q < length (global_map st)"
      using True "1.prems" by simp
    obtain out g' st' where qs: "query_step env p1 p2 n q g st = (out, g', st')"
      by (cases "query_step env p1 p2 n q g st")
    have len': "length (global_map st') = n"
      using query_step_length [of env p1 p2 n q g st] qs "1.prems" by simp
    obtain es1 where es1:
      "events st' = events st @ FindRelocCandidates q (int n - int q + 1) False # es1"
      "search_calls es1 = []"
      "list_all (\<lambda>(m, q'). m < int q - 1 \<and> q' = q) (refinement_calls es1)"
      "length (filter is_solve es1) \<le> 1"
      using query_step_events [OF inside, of env p1 p2 n g] qs by auto
    have ref1: "list_all (\<lambda>(m, q'). m < int q' - 1) (refinement_calls es1)"
      using es1(3) by (auto simp: list_all_iff)
    show ?thesis
    proof (cases out)
      case (Thrown e)
      then have sw: "sweep env p1 p2 n q g st = (Thrown e, st')"
        using True qs by (simp add: sweep.simps)
      show ?thesis
        unfolding sw upt using es1 ref1
        by (intro exI [of _ "FindRelocCandidates q (int n - int q + 1) False # es1"]) simp
    next
      case (Returned u)
      then have sw: "sweep env p1 p2 n q g st = sweep env p1 p2 n (q + 1) g' st'"
        using True qs by (simp add: sweep.simps)
      obtain es2 where es2:
        "events (snd (sweep env p1 p2 n (q + 1) g' st')) = events st' @ es2"
        "prefix (search_calls es2) (map (\<lambda>q. (q, int n - int q + 1)) [q + 1 ..< n - 1])"
        "\<forall>b. fst (sweep env p1 p2 n (q + 1) g' st') = Returned b \<longrightarrow>
             search_calls es2 = map (\<lambda>q. (q, int n - int q + 1)) [q + 1 ..< n - 1]"
        "list_all (\<lambda>(m, q'). m < int q' - 1) (refinement_calls es2)"
        "length (filter is_solve es2) \<le> length (search_calls es2)"
        using "1.IH" [OF True qs [symmetric, unfolded Returned] _ _ len'] by auto
      show ?thesis
        unfolding sw upt using es1 ref1 es2
        by (intro exI [of _ "FindRelocCandidates q (int n - int q + 1) False # es1 @ es2"]) simp
    qed
  qed
qed


lemma pose_prior_noise_emit [simp]: "pose_prior_noise (emit es st) = pose_prior_noise st"
  by (simp add: emit_def)

lemma pgo_skip_emit [simp]: "pgo_skip_first_n_submaps (emit es st) = pgo_skip_first_n_submaps st"
  by (simp add: emit_def)

lemma emit_emit [simp]: "emit es2 (emit es1 st) = emit (es1 @ es2) st"
  by (simp add: emit_def)

lemma prior_transaction_emit [simp]: "prior_transaction (emit es st) = prior_transaction st"
  by (intro ext) (simp add: prior_transaction_def)

lemma relative_transaction_emit [simp]:
  "relative_transaction env (emit es st) = relative_transaction env st"
  by (intro ext) (simp add: relative_transaction_def)

lemma add_relative_poses_eq:
  "add_relative_poses env st submaps is graph evs =
     (foldl update graph (map (relative_transaction env st submaps) (filter (\<lambda>i. \<not> i < 1) is)),
      evs @ map (\<lambda>i. GraphUpdate (relative_transaction env st submaps i)) (filter (\<lambda>i. \<not> i < 1) is))"
  by (induction "is" arbitrary: graph evs) (simp_all add: Let_def)

lemma filter_upt_from_1: "filter (\<lambda>i. \<not> i < 1) [1 ..< n] = [1 ..< n]"
  by (rule filter_True) simp

lemma chain_graph_eq:
  "submaps \<noteq> [] \<Longrightarrow>
   chain_graph env st submaps =
     Inr (foldl update (update make_shared_graph (prior_transaction st (submaps ! 0)))
            (map (relative_transaction env st submaps) [1 ..< length submaps]),
          GraphUpdate (prior_transaction st (submaps ! 0))
            # map (\<lambda>i. GraphUpdate (relative_transaction env st submaps i)) [1 ..< length submaps])"
  by (cases submaps) (simp_all add: chain_graph_def Let_def add_relative_poses_eq filter_upt_from_1)

lemma constraints_foldl_update:
  "constraints (foldl update g txs) = constraints g @ concat (map added_constraints txs)"
  by (induction txs arbitrary: g) (simp_all add: update_def)

lemma dom_emplace: "dom (emplace m k v) = insert k (dom m)"
  by (auto simp: emplace_def split: option.splits)

lemma dom_add_variables: "dom (add_variables m vs) = dom m \<union> fst ` set vs"
  by (induction m vs rule: add_variables.induct) (auto simp: dom_emplace)

lemma dom_variables_foldl_update:
  "dom (variables (foldl update g txs)) =
     dom (variables g) \<union> fst ` (\<Union>tx \<in> set txs. set (added_variables tx))"
  by (induction txs arbitrary: g) (auto simp: update_def dom_add_variables)

lemma RunPoseGraphOptimization_no_directories:
  "\<not> pgo_directories env output_path \<Longrightarrow>
   RunPoseGraphOptimization env st output_path =
     (Thrown filesystem_error, emit (pgo_preamble env st output_path) st)"
  by (auto simp: RunPoseGraphOptimization_def Let_def pgo_preamble_def pgo_directories_def
        create_directory_def)

lemma RunPoseGraphOptimization_empty:
  "pgo_directories env output_path \<Longrightarrow> global_map st = [] \<Longrightarrow>
   RunPoseGraphOptimization env st output_path =
     (Thrown out_of_range, emit (pgo_preamble env st output_path) st)"
  by (simp add: RunPoseGraphOptimization_def chain_graph_def Let_def pgo_preamble_def
        pgo_directories_def create_directory_def)

lemma RunPoseGraphOptimization_stopped:
  assumes "\<not> pgo_directories env output_path \<or> global_map st = []"
  shows "\<exists>e. RunPoseGraphOptimization env st output_path =
           (Thrown e, emit (pgo_preamble env st output_path) st)"
  using assms RunPoseGraphOptimization_no_directories [of env output_path st]
    RunPoseGraphOptimization_empty [of env output_path st]
  by (cases "pgo_directories env output_path") auto

lemma RunPoseGraphOptimization_nonempty:
  "pgo_directories env output_path \<Longrightarrow> global_map st \<noteq> [] \<Longrightarrow>
   RunPoseGraphOptimization env st output_path =
     sweep env (CombinePaths env output_path ''refinement'')
       (CombinePaths env output_path ''candidate_search'') (length (global_map st))
       (pgo_skip_first_n_submaps st)
       (foldl update (update make_shared_graph (prior_transaction st (global_map st ! 0)))
          (map (relative_transaction env st (global_map st)) [1 ..< length (global_map st)]))
       (emit (pgo_preamble env st output_path
              @ GraphUpdate (prior_transaction st (global_map st ! 0))
                # map (\<lambda>i. GraphUpdate (relative_transaction env st (global_map st) i))
                    [1 ..< length (global_map st)]) st)"
  by (simp add: RunPoseGraphOptimization_def chain_graph_eq Let_def pgo_preamble_def
        pgo_directories_def create_directory_def)

lemma pgo_events_stopped:
  assumes "\<not> pgo_directories env output_path \<or> global_map st = []"
  shows "pgo_events env st output_path = pgo_preamble env st output_path"
proof -
  obtain e where "RunPoseGraphOptimization env st output_path =
           (Thrown e, emit (pgo_preamble env st output_path) st)"
    using RunPoseGraphOptimization_stopped [OF assms] by blast
  then show ?thesis by (simp add: pgo_events_def)
qed

lemma pgo_events_nonempty:
  assumes dirs: "pgo_directories env output_path" and ne: "global_map st \<noteq> []"
  shows "\<exists>es. pgo_events env st output_path =
               pgo_preamble env st output_path
               @ GraphUpdate (prior_transaction st (global_map st ! 0))
                 # map (\<lambda>i. GraphUpdate (relative_transaction env st (global_map st) i))
                     [1 ..< length (global_map st)]
               @ es
          \<and> prefix (search_calls es)
               (map (\<lambda>q. (q, int (length (global_map st)) - int q + 1))
                  [pgo_skip_first_n_submaps st ..< length (global_map st) - 1])
          \<and> (\<forall>b. fst (RunPoseGraphOptimization env st output_path) = Returned b \<longrightarrow>
                search_calls es = map (\<lambda>q. (q, int (length (global_map st)) - int q + 1))
                  [pgo_skip_first_n_submaps st ..< length (global_map st) - 1])
          \<and> list_all (\<lambda>(m, q'). m < int q' - 1) (refinement_calls es)
          \<and> (es = [] \<or> is_search (hd es))
          \<and> length (filter is_solve es) \<le> length (search_calls es)"
proof -
  let ?pre = "pgo_preamble env st output_path
               @ GraphUpdate (prior_transaction st (global_map st ! 0))
                 # map (\<lambda>i. GraphUpdate (relative_transaction env st (global_map st) i))
                     [1 ..< length (global_map st)]"
  let ?g = "foldl update (update make_shared_graph (prior_transaction st (global_map st ! 0)))
          (map (relative_transaction env st (global_map st)) [1 ..< length (global_map st)])"
  let ?sw = "sweep env (CombinePaths env output_path ''refinement'')
       (CombinePaths env output_path ''candidate_search'') (length (global_map st))
       (pgo_skip_first_n_submaps st) ?g (emit ?pre st)"
  have run: "RunPoseGraphOptimization env st output_path = ?sw"
    using RunPoseGraphOptimization_nonempty [OF dirs ne] by simp
  obtain es where es:
    "events (snd ?sw) = events (emit ?pre st) @ es"
    "prefix (search_calls es)
       (map (\<lambda>q. (q, int (length (global_map st)) - int q + 1))
          [pgo_skip_first_n_submaps st ..< length (global_map st) - 1])"
    "\<forall>b. fst ?sw = Returned b \<longrightarrow>
       search_calls es = map (\<lambda>q. (q, int (length (global_map st)) - int q + 1))
          [pgo_skip_first_n_submaps st ..< length (global_map st) - 1]"
    "list_all (\<lambda>(m, q'). m < int q' - 1) (refinement_calls es)"
    "es = [] \<or> is_search (hd es)"
    "length (filter is_solve es) \<le> length (search_calls es)"
    using sweep_events [of "emit ?pre st" "length (global_map st)" env
        "CombinePaths env output_path ''refinement''"
        "CombinePaths env output_path ''candidate_search''"
        "pgo_skip_first_n_submaps st" ?g]
    by auto
  have pe: "pgo_events env st output_path = ?pre @ es"
    unfolding pgo_events_def run using es(1) by (intro new_events_append) simp
  show ?thesis
    apply (rule exI [of _ es])
    using pe es(2-6) unfolding run by simp
qed

lemma search_calls_preamble [simp]: "search_calls (pgo_preamble env st output_path) = []"
  by (simp add: pgo_preamble_def)

lemma refinement_calls_preamble [simp]: "refinement_calls (pgo_preamble env st output_path) = []"
  by (simp add: pgo_preamble_def)

lemma search_calls_GraphUpdates [simp]: "search_calls (map (\<lambda>i. GraphUpdate (f i)) xs) = []"
  by (induction xs) simp_all

lemma refinement_calls_GraphUpdates [simp]: "refinement_calls (map (\<lambda>i. GraphUpdate (f i)) xs) = []"
  by (induction xs) simp_all





lemma solve_GraphUpdates [simp]: "filter is_solve (map (\<lambda>i. GraphUpdate (f i)) xs) = []"
  by (induction xs) simp_all


subsection \<open>Facts about the chain graph\<close>

lemma chain_graph_constraints:
  "constraints (foldl update (update make_shared_graph (prior_transaction st (submaps ! 0)))
            (map (relative_transaction env st submaps) [1 ..< length submaps]))
   = AbsolutePose (stamp (submaps ! 0)) (T_WORLD_SUBMAP (submaps ! 0)) (pose_prior_noise st)
       ''GlobalMapRefinement::RunPoseGraphOptimization''
     # map (\<lambda>i. RelativePose (stamp (submaps ! (i - 1))) (stamp (submaps ! i))
                 (compose env (InvertTransform env (T_WORLD_SUBMAP (submaps ! (i - 1))))
                    (T_WORLD_SUBMAP (submaps ! i)))
                 (local_mapper_covariance (loop_closure (params st)))
                 ''GlobalMap::InitiateNewSubmapPose'')
         [1 ..< length submaps]"
  by (simp add: constraints_foldl_update update_def make_shared_graph_def prior_transaction_def
        relative_transaction_def Let_def comp_def concat_map_singleton)

lemma stamps_upt:
  assumes "submaps \<noteq> []"
  shows "insert (stamp (submaps ! 0)) ((\<lambda>i. stamp (submaps ! i)) ` {1 ..< length submaps})
         = stamp ` set submaps"
proof (intro set_eqI iffI)
  fix t
  assume "t \<in> insert (stamp (submaps ! 0)) ((\<lambda>i. stamp (submaps ! i)) ` {1 ..< length submaps})"
  then show "t \<in> stamp ` set submaps"
    using assms by (auto simp: nth_mem)
next
  fix t
  assume "t \<in> stamp ` set submaps"
  then obtain i where i: "i < length submaps" "t = stamp (submaps ! i)"
    by (auto simp: in_set_conv_nth)
  then show "t \<in> insert (stamp (submaps ! 0)) ((\<lambda>i. stamp (submaps ! i)) ` {1 ..< length submaps})"
    by (cases "i = 0") auto
qed

lemma relative_variables:
  "fst ` (\<Union>tx \<in> set (map (relative_transaction env st submaps) is). set (added_variables tx))
   = (\<lambda>i. stamp (submaps ! i)) ` set is"
  by (induction "is") (simp_all add: relative_transaction_def Let_def)

lemma chain_graph_variables:
  assumes "submaps \<noteq> []"
  shows "dom (variables (foldl update (update make_shared_graph (prior_transaction st (submaps ! 0)))
            (map (relative_transaction env st submaps) [1 ..< length submaps])))
         = stamp ` set submaps"
proof -
  have "dom (variables (update make_shared_graph (prior_transaction st (submaps ! 0))))
        = {stamp (submaps ! 0)}"
    by (simp add: update_def make_shared_graph_def prior_transaction_def dom_emplace)
  then have "dom (variables (foldl update (update make_shared_graph (prior_transaction st (submaps ! 0)))
            (map (relative_transaction env st submaps) [1 ..< length submaps])))
        = insert (stamp (submaps ! 0)) ((\<lambda>i. stamp (submaps ! i)) ` {1 ..< length submaps})"
    unfolding dom_variables_foldl_update relative_variables by simp
  then show ?thesis using stamps_upt [OF assms] by simp
qed

subsection \<open>Facts about configuration loading\<close>

lemma and_then_Inr: "and_then r f = Inr y \<Longrightarrow> \<exists>x. r = Inr x \<and> f x = Inr y"
  by (cases r) (simp_all add: and_then_def)

lemma Validate_Inr: "ValidateJsonKeysOrThrow ks J = Inr u \<Longrightarrow> list_all (json_contains J) ks"
  by (simp add: ValidateJsonKeysOrThrow_def split: if_splits)

lemma LoadJson_unreadable:
  "config_path \<noteq> [] \<Longrightarrow> ReadJson env config_path = None \<Longrightarrow>
   LoadJson env p config_path = Inl (runtime_error ''Unable to read global map refinement config'')"
  by (simp add: LoadJson_def)

lemma load_loop_closure_keys:
  "load_loop_closure env lc J = Inr x \<Longrightarrow>
   list_all (json_contains J) [''candidate_search_config'', ''refinement_config'',
      ''local_mapper_covariance'', ''loop_closure_covariance'']"
  unfolding load_loop_closure_def by (drule and_then_Inr) (auto dest: Validate_Inr)

lemma load_submap_refinement_keys:
  "load_submap_refinement env sr J = Inr x \<Longrightarrow>
   list_all (json_contains J) [''scan_registration_config'', ''matcher_config'']"
  unfolding load_submap_refinement_def by (drule and_then_Inr) (auto dest: Validate_Inr)

lemma load_submap_alignment_keys:
  "load_submap_alignment env sa J = Inr x \<Longrightarrow> list_all (json_contains J) [''matcher_config'']"
  unfolding load_submap_alignment_def by (drule and_then_Inr) (auto dest: Validate_Inr)

lemma LoadJson_keys:
  assumes ok: "LoadJson env p config_path = Inr p'" and ne: "config_path \<noteq> []"
    and rd: "ReadJson env config_path = Some J"
  shows "required_keys_present J"
proof -
  from ok ne rd have 1:
    "and_then (ValidateJsonKeysOrThrow
                 [''loop_closure'', ''submap_refinement'', ''submap_alignment''] J) (\<lambda>_.
       and_then (load_loop_closure env (loop_closure p) (json_at J ''loop_closure'')) (\<lambda>lc.
       and_then (load_submap_refinement env (submap_refinement_params p)
                   (json_at J ''submap_refinement'')) (\<lambda>sr.
       and_then (load_submap_alignment env (submap_alignment_params p)
                   (json_at J ''submap_alignment'')) (\<lambda>sa.
       Inr (p\<lparr>loop_closure := lc, submap_refinement_params := sr,
               submap_alignment_params := sa\<rparr>))))) = Inr p'"
    by (simp add: LoadJson_def)
  from and_then_Inr [OF 1] obtain u where
    k1: "ValidateJsonKeysOrThrow [''loop_closure'', ''submap_refinement'', ''submap_alignment''] J = Inr u"
    and 2: "and_then (load_loop_closure env (loop_closure p) (json_at J ''loop_closure'')) (\<lambda>lc.
       and_then (load_submap_refinement env (submap_refinement_params p)
                   (json_at J ''submap_refinement'')) (\<lambda>sr.
       and_then (load_submap_alignment env (submap_alignment_params p)
                   (json_at J ''submap_alignment'')) (\<lambda>sa.
       Inr (p\<lparr>loop_closure := lc, submap_refinement_params := sr,
               submap_alignment_params := sa\<rparr>)))) = Inr p'"
    by blast
  from and_then_Inr [OF 2] obtain lc where
    k2: "load_loop_closure env (loop_closure p) (json_at J ''loop_closure'') = Inr lc"
    and 3: "and_then (load_submap_refinement env (submap_refinement_params p)
                   (json_at J ''submap_refinement'')) (\<lambda>sr.
       and_then (load_submap_alignment env (submap_alignment_params p)
                   (json_at J ''submap_alignment'')) (\<lambda>sa.
       Inr (p\<lparr>loop_closure := lc, submap_refinement_params := sr,
               submap_alignment_params := sa\<rparr>))) = Inr p'"
    by blast
  from and_then_Inr [OF 3] obtain sr where
    k3: "load_submap_refinement env (submap_refinement_params p) (json_at J ''submap_refinement'') = Inr sr"
    and 4: "and_then (load_submap_alignment env (submap_alignment_params p)
                   (json_at J ''submap_alignment'')) (\<lambda>sa.
       Inr (p\<lparr>loop_closure := lc, submap_refinement_params := sr,
               submap_alignment_params := sa\<rparr>)) = Inr p'"
    by blast
  from and_then_Inr [OF 4] obtain sa where
    k4: "load_submap_alignment env (submap_alignment_params p) (json_at J ''submap_alignment'') = Inr sa"
    by blast
  show ?thesis
    unfolding required_keys_present_def
    using Validate_Inr [OF k1] load_loop_closure_keys [OF k2] load_submap_refinement_keys [OF k3]
      load_submap_alignment_keys [OF k4]
    by blast
qed

lemma Setup_invalid_type:
  "GetTypeFromConfig env (sa_matcher_config (submap_alignment_params (params st))) = UNKNOWN \<Longrightarrow>
   Setup env st = Inl (invalid_argument ''invalid json'')"
  by (simp add: Setup_def Let_def)

subsection \<open>Facts about submap refinement\<close>

lemma sp_stamp_UpdatePose [simp]: "sp_stamp (ScanPose_UpdatePose g s) = sp_stamp s"
  by (simp add: ScanPose_UpdatePose_def split: option.splits)

lemma update_scan_poses_fst:
  "fst (update_scan_poses env g scans sm) = map (ScanPose_UpdatePose g) scans"
  by (induction scans arbitrary: sm) (simp_all add: Let_def)

lemma emplace_map_add: "m ++ emplace sm k v = (m(k \<mapsto> v)) ++ sm"
  by (auto simp: map_add_def emplace_def fun_eq_iff split: option.splits)

lemma update_scan_poses_snd:
  "snd (update_scan_poses env g scans sm) =
     map_of (map (\<lambda>scan_pose. (sp_stamp scan_pose,
                    mk_RegistrationResult env (T_REFFRAME_BASELINK scan_pose)
                      (T_REFFRAME_BASELINK (ScanPose_UpdatePose g scan_pose)))) scans) ++ sm"
proof (induction scans arbitrary: sm)
  case Nil
  then show ?case by simp
next
  case (Cons s scans)
  show ?case
    by (simp add: Let_def Cons.IH emplace_map_add)
       (auto simp: map_add_def fun_eq_iff split: option.splits)
qed



lemma RefineSubmap_ok:
  assumes "output_path \<noteq> []" and "fs_exists env output_path"
    and "can_create env (submap_output_path env output_path submap)"
    and "sr_Create env (scan_registration_config (submap_refinement_params (params st)))
           (sr_matcher_config (submap_refinement_params (params st)))
           (submap_output_path env output_path submap) True = Inr sr"
  shows "RefineSubmap env st submap output_path =
     (Returned True,
      submap\<lparr>lidar_keyframes := map (ScanPose_UpdatePose (refined_graph env sr submap))
                                   (lidar_keyframes submap)\<rparr>,
      (emit [CreateDirectory (submap_output_path env output_path submap)] st)
        \<lparr>summary := (summary st)\<lparr>submap_refinement :=
            map_of (map (\<lambda>scan_pose. (sp_stamp scan_pose,
                      mk_RegistrationResult env (T_REFFRAME_BASELINK scan_pose)
                        (T_REFFRAME_BASELINK
                           (ScanPose_UpdatePose (refined_graph env sr submap) scan_pose))))
                    (lidar_keyframes submap))
            ++ submap_refinement (summary st)\<rparr>\<rparr>)"
  using assms
  by (simp add: RefineSubmap_def Let_def submap_output_path_def refined_graph_def
        create_directory_def update_scan_poses_fst update_scan_poses_snd)




lemma map_of_fresh:
  assumes "distinct (map f xs)" and "s \<in> set xs"
  shows "map_of (map (\<lambda>x. (f x, g x)) xs) (f s) = Some (g s)"
proof -
  have "distinct (map fst (map (\<lambda>x. (f x, g x)) xs))"
    using assms(1) by (simp add: comp_def)
  moreover have "(f s, g s) \<in> set (map (\<lambda>x. (f x, g x)) xs)"
    using assms(2) by auto
  ultimately show ?thesis by (rule map_of_is_SomeI)
qed

lemma constraints_optimize [simp]: "constraints (optimize env g) = constraints g"
  by (simp add: optimize_def)


subsection \<open>A run on five submaps\<close>

text \<open>
  Five submaps, the first two skipped, candidates found for query 3: the log of the run.
  Its only solve is the last but one event, after both candidate searches.
\<close>

lemma demo_pgo_events:
  "pgo_events demo_env (demo_object 5 2) ''/out'' =
     [CreateDirectory ''/out/refinement'',
      CreateDirectory ''/out/candidate_search'',
      GraphUpdate \<lparr>added_variables = [(Time 0 0, 0)],
                   added_constraints =
                     [AbsolutePose (Time 0 0) 0 0
                        ''GlobalMapRefinement::RunPoseGraphOptimization'']\<rparr>,
      GraphUpdate \<lparr>added_variables = [(Time 1 0, 10)],
                   added_constraints =
                     [RelativePose (Time 0 0) (Time 1 0) 10 2
                        ''GlobalMap::InitiateNewSubmapPose'']\<rparr>,
      GraphUpdate \<lparr>added_variables = [(Time 2 0, 20)],
                   added_constraints =
                     [RelativePose (Time 1 0) (Time 2 0) 10 2
                        ''GlobalMap::InitiateNewSubmapPose'']\<rparr>,
      GraphUpdate \<lparr>added_variables = [(Time 3 0, 30)],
                   added_constraints =
                     [RelativePose (Time 2 0) (Time 3 0) 10 2
                        ''GlobalMap::InitiateNewSubmapPose'']\<rparr>,
      GraphUpdate \<lparr>added_variables = [(Time 4 0, 40)],
                   added_constraints =
                     [RelativePose (Time 3 0) (Time 4 0) 10 2
                        ''GlobalMap::InitiateNewSubmapPose'']\<rparr>,
      FindRelocCandidates 2 4 False,
      FindRelocCandidates 3 3 False,
      LogError ''Error in candidate search implementation, please fix!'',
      RunRefinement 0 3 50,
      GraphUpdate \<lparr>added_variables = [],
                   added_constraints =
                     [RelativePose (Time 0 0) (Time 3 0) 51 1 ''GlobalMap::RunLoopClosure'']\<rparr>,
      GraphOptimize,
      UpdateSubmapPoses]"
  by code_simp

section \<open>Claims\<close>

subsection \<open>C1: a failed pairwise registration\<close>

text \<open>
  C1 says that a failed registration of a submap pair aborts the alignment stage:
  \<^verbatim>\<open>AlignSubmaps\<close> propagates the failure, \<^verbatim>\<open>RunSubmapAlignment\<close> returns failure after the
  first failed pair, and no summary entry is recorded for a failed pair. The code reads
  \<^verbatim>\<open>Match()\<close> into \<^verbatim>\<open>match_success\<close> and never looks at it. On three submaps, with a
  matcher that fails on every call and the existing output directory \<^verbatim>\<open>/out\<close>, both
  pairs are matched (both \<open>Match False\<close>), both results are applied and saved, both
  target poses are overwritten, both pairs get a summary entry, and the stage returns
  \<open>true\<close>.
\<close>

theorem C1_failed_registration_is_not_propagated:
  "fs_exists failing_env ''/out''
   \<and> fst (RunSubmapAlignment failing_env (demo_object 3 2) ''/out'') = Returned True
   \<and> events (snd (RunSubmapAlignment failing_env (demo_object 3 2) ''/out'')) =
       [CreateDirectory ''/out/submap_1.000000'', SetRef 0, SetTarget 10, Match False, ApplyResult 10,
        SaveResults ''/out/submap_1.000000'' ''submap_cloud_'',
        CreateDirectory ''/out/submap_2.000000'', SetRef 0, SetTarget 10, Match False, ApplyResult 10,
        SaveResults ''/out/submap_2.000000'' ''submap_cloud_'']
   \<and> map T_WORLD_SUBMAP
         (global_map (snd (RunSubmapAlignment failing_env (demo_object 3 2) ''/out'')))
       = [0, 11, 22]
   \<and> submap_alignment (summary (snd (RunSubmapAlignment failing_env (demo_object 3 2) ''/out'')))
         (Time 1 0) = Some \<lparr>dR = 0, dt = 1000\<rparr>
   \<and> submap_alignment (summary (snd (RunSubmapAlignment failing_env (demo_object 3 2) ''/out'')))
         (Time 2 0) = Some \<lparr>dR = 0, dt = 2000\<rparr>"
  by code_simp

subsection \<open>C2: no solve between the chain graph and the sweep\<close>




subsection \<open>C3: the range of the sweep and the ignore window\<close>



subsection \<open>C4: a candidate at or after the query's predecessor\<close>

text \<open>
  C4: a candidate whose matched index is at least \<open>queryIndex - 1\<close> is rejected with an
  error logged, before any refinement is attempted for it, and the rejection does not
  end the loop: the remaining candidates of the query are processed. First conjunct:
  the candidate loop on such a candidate is the loop on the remaining candidates after
  one logged error. Second conjunct: every refinement a run attempts has a matched index
  below its query index minus 1.
\<close>

theorem C4_late_candidate_rejected:
  "(int query_index - 1 \<le> matched_index \<longrightarrow>
      candidates_loop env path query_index ((matched_index, T_MATCH_QUERY) # rest) transaction st =
      candidates_loop env path query_index rest transaction
        (emit [LogError ''Error in candidate search implementation, please fix!''] st))
   \<and> list_all (\<lambda>(m, q). m < int q - 1) (refinement_calls (pgo_events env st output_path))"
proof (cases "\<not> pgo_directories env output_path \<or> global_map st = []")
  case True
  then show ?thesis
    by (simp add: pgo_events_stopped)
next
  case False
  then have "pgo_directories env output_path" and "global_map st \<noteq> []"
    by simp_all
  from pgo_events_nonempty [OF this]
  show ?thesis by auto
qed

text \<open>
  Query 3 with the candidates 2 and 0: candidate 2 is logged and skipped, candidate 0 is
  refined, and it is the only refinement of the run.
\<close>

theorem C4_late_candidate_rejected_witness:
  "int 3 - 1 \<le> (2::int)
   \<and> candidates_loop demo_env ''/out/refinement'' 3 [(2, 40), (0, 50)] empty_transaction
       (demo_object 5 2) =
     candidates_loop demo_env ''/out/refinement'' 3 [(0, 50)] empty_transaction
       (emit [LogError ''Error in candidate search implementation, please fix!'']
          (demo_object 5 2))
   \<and> refinement_calls (pgo_events demo_env (demo_object 5 2) ''/out'') = [(0, 3)]"
proof -
  have "refinement_calls (pgo_events demo_env (demo_object 5 2) ''/out'') = [(0, 3)]"
    by (simp add: demo_pgo_events)
  then show ?thesis
    using C4_late_candidate_rejected [of 3 2 demo_env "''/out/refinement''" 40 "[(0, 50)]"
        empty_transaction "demo_object 5 2" "''/out''"]
    by simp
qed

subsection \<open>C5: frames, seed and new pose in AlignSubmaps\<close>

text \<open>
  C5: \<^verbatim>\<open>AlignSubmaps\<close> transforms the accumulated clouds of both submaps into the initial
  frame of the reference submap (the clouds are taken with initial world poses and moved
  by the inverse of the reference's \<^verbatim>\<open>T_WORLD_SUBMAP_INIT\<close>), seeds the registration with
  the relative transform between the two initial poses, and sets the target's
  \<^verbatim>\<open>T_WORLD_SUBMAP\<close> to the reference's current \<^verbatim>\<open>T_WORLD_SUBMAP\<close> composed with the
  refined relative transform; in the feature-based branch and in the point-based branch
  alike. The calls to the matcher are read off the log. The statement is about a call
  that gets as far as the matcher: the output path is an existing directory and the
  directory of the target submap can be made in it.
\<close>

theorem C5_align_frames_seed_and_pose:
  assumes nonempty: "output_path \<noteq> []"
    and path: "fs_exists env output_path"
    and made: "can_create env (submap_output_path env output_path submap_tgt)"
  shows
    "let T_SubmapRef_WorldInit = InvertTransform env (T_WORLD_SUBMAP_INIT submap_ref);
         seed = compose env T_SubmapRef_WorldInit (T_WORLD_SUBMAP_INIT submap_tgt);
         loam_ref = TransformPointCloud env T_SubmapRef_WorldInit
                      (GetLidarLoamPointsInWorldFrame env submap_ref True);
         loam_tgt = TransformPointCloud env T_SubmapRef_WorldInit
                      (GetLidarLoamPointsInWorldFrame env submap_tgt True);
         pcl_ref = pcl_transformPointCloud env T_SubmapRef_WorldInit
                     (GetLidarPointsInWorldFrameCombined env submap_ref True);
         pcl_tgt = pcl_transformPointCloud env T_SubmapRef_WorldInit
                     (GetLidarPointsInWorldFrameCombined env submap_tgt True);
         submap_output =
           CombinePaths env output_path (''submap_'' @ toSec_string env (stamp submap_tgt));
         r = AlignSubmaps env st submap_ref submap_tgt output_path
     in (matcher_loam st = Some m \<longrightarrow>
           fst r = Returned True
         \<and> new_events st (snd (snd r)) =
             [CreateDirectory submap_output, SetRef loam_ref, SetTarget loam_tgt,
              Match (matcher_Match env m loam_ref loam_tgt), ApplyResult seed,
              SaveResults submap_output ''submap_cloud_'']
         \<and> fst (snd r) = submap_tgt\<lparr>T_WORLD_SUBMAP :=
             compose env (T_WORLD_SUBMAP submap_ref)
               (matcher_ApplyResult env m loam_ref loam_tgt seed)\<rparr>)
      \<and> (matcher_loam st = None \<and> matcher st = Some m \<longrightarrow>
           fst r = Returned True
         \<and> new_events st (snd (snd r)) =
             [CreateDirectory submap_output, SetRef pcl_ref, SetTarget pcl_tgt,
              Match (matcher_Match env m pcl_ref pcl_tgt), ApplyResult seed,
              SaveResults submap_output ''submap_cloud_'']
         \<and> fst (snd r) = submap_tgt\<lparr>T_WORLD_SUBMAP :=
             compose env (T_WORLD_SUBMAP submap_ref)
               (matcher_ApplyResult env m pcl_ref pcl_tgt seed)\<rparr>)"
  using nonempty path made
  by (auto simp: AlignSubmaps_def align_clouds_def Let_def new_events_def
        submap_output_path_def create_directory_def)

text \<open>
  Reference at 13 (initially 10), target at 25 (initially 20), output to \<^verbatim>\<open>/out\<close>: the seed
  is 10, the refined transform 11, the new target pose 13 + 11 in both branches.
\<close>

theorem C5_align_frames_seed_and_pose_witness:
  "''/out'' \<noteq> []
   \<and> fs_exists demo_env ''/out''
   \<and> can_create demo_env (submap_output_path demo_env ''/out'' drifted_tgt)
   \<and> matcher_loam (demo_loam_object 2 2) = Some (LoamMatcher ''/config/loam.json'' ''/config/loam.json'')
   \<and> new_events (demo_loam_object 2 2)
       (snd (snd (AlignSubmaps demo_env (demo_loam_object 2 2) drifted_ref drifted_tgt ''/out''))) =
       [CreateDirectory ''/out/submap_2.000000'', SetRef 100, SetTarget 110, Match True,
        ApplyResult 10, SaveResults ''/out/submap_2.000000'' ''submap_cloud_'']
   \<and> fst (snd (AlignSubmaps demo_env (demo_loam_object 2 2) drifted_ref drifted_tgt ''/out'')) =
       drifted_tgt\<lparr>T_WORLD_SUBMAP := 24\<rparr>
   \<and> matcher_loam (demo_object 2 2) = None
   \<and> matcher (demo_object 2 2) = Some (IcpMatcher ''/config/icp.json'')
   \<and> new_events (demo_object 2 2)
       (snd (snd (AlignSubmaps demo_env (demo_object 2 2) drifted_ref drifted_tgt ''/out''))) =
       [CreateDirectory ''/out/submap_2.000000'', SetRef 0, SetTarget 10, Match True,
        ApplyResult 10, SaveResults ''/out/submap_2.000000'' ''submap_cloud_'']
   \<and> fst (snd (AlignSubmaps demo_env (demo_object 2 2) drifted_ref drifted_tgt ''/out'')) =
       drifted_tgt\<lparr>T_WORLD_SUBMAP := 24\<rparr>"
proof -
  have n: "''/out'' \<noteq> []"
    by simp
  have p: "fs_exists demo_env ''/out''"
    by (simp add: demo_env_def)
  have c: "can_create demo_env (submap_output_path demo_env ''/out'' drifted_tgt)"
    by code_simp
  have l: "matcher_loam (demo_loam_object 2 2) = Some (LoamMatcher ''/config/loam.json'' ''/config/loam.json'')"
    by (simp add: demo_loam_object_def default_object_def)
  have i: "matcher_loam (demo_object 2 2) = None \<and> matcher (demo_object 2 2) = Some (IcpMatcher ''/config/icp.json'')"
    by (simp add: demo_object_def default_object_def)
  have e: "InvertTransform demo_env = uminus" "compose demo_env = (+)"
      "TransformPointCloud demo_env = (+)" "pcl_transformPointCloud demo_env = (+)"
      "GetLidarLoamPointsInWorldFrame demo_env drifted_ref True = 110"
      "GetLidarLoamPointsInWorldFrame demo_env drifted_tgt True = 120"
      "GetLidarPointsInWorldFrameCombined demo_env drifted_ref True = 10"
      "GetLidarPointsInWorldFrameCombined demo_env drifted_tgt True = 20"
      "matcher_Match demo_env = (\<lambda>m r t. True)"
      "matcher_ApplyResult demo_env = (\<lambda>m r t seed. seed + 1)"
      "CombinePaths demo_env = (\<lambda>a b. a @ ''/'' @ b)"
    by (simp_all add: demo_env_def drifted_ref_def drifted_tgt_def)
  have t: "toSec_string demo_env (Time 2 0) = ''2.000000''"
    by code_simp
  have d: "T_WORLD_SUBMAP_INIT drifted_ref = 10" "T_WORLD_SUBMAP_INIT drifted_tgt = 20"
     "T_WORLD_SUBMAP drifted_ref = 13" "stamp drifted_tgt = Time 2 0"
    by (simp_all add: drifted_ref_def drifted_tgt_def)
  show ?thesis
    using C5_align_frames_seed_and_pose [OF n p c, where submap_ref = drifted_ref
            and st = "demo_loam_object 2 2"
            and m = "LoamMatcher ''/config/loam.json'' ''/config/loam.json''"]
          C5_align_frames_seed_and_pose [OF n p c, where submap_ref = drifted_ref
            and st = "demo_object 2 2"
            and m = "IcpMatcher ''/config/icp.json''"]
          l i p c
    by (simp add: Let_def e d t)
qed

subsection \<open>C6: the chain graph\<close>

text \<open>
  C6: the chain pose graph \<^verbatim>\<open>RunPoseGraphOptimization\<close> assembles, before any loop closure
  is added, holds exactly one absolute prior, on submap 0, and for every submap after
  the first exactly one relative constraint to its immediate predecessor, measured as
  the relative transform between their current world poses. On a map with at least one
  submap, the chain graph has exactly these constraints, in this order, and its
  variables are the stamps of the submaps, so every variable is tied to the prior
  through the chain; when the two result directories can be made, so that the function
  gets as far as the graph, this is the graph handed to the sweep.
\<close>

theorem C6_chain_graph_prior_and_chain:
  assumes "global_map st \<noteq> []"
  shows "\<exists>graph evs.
           chain_graph env st (global_map st) = Inr (graph, evs)
         \<and> (pgo_directories env output_path \<longrightarrow>
              RunPoseGraphOptimization env st output_path =
                sweep env (CombinePaths env output_path ''refinement'')
                  (CombinePaths env output_path ''candidate_search'') (length (global_map st))
                  (pgo_skip_first_n_submaps st) graph
                  (emit (pgo_preamble env st output_path @ evs) st))
         \<and> constraints graph =
             AbsolutePose (stamp (global_map st ! 0)) (T_WORLD_SUBMAP (global_map st ! 0))
               (pose_prior_noise st) ''GlobalMapRefinement::RunPoseGraphOptimization''
             # map (\<lambda>i. RelativePose (stamp (global_map st ! (i - 1))) (stamp (global_map st ! i))
                         (compose env (InvertTransform env (T_WORLD_SUBMAP (global_map st ! (i - 1))))
                            (T_WORLD_SUBMAP (global_map st ! i)))
                         (local_mapper_covariance (loop_closure (params st)))
                         ''GlobalMap::InitiateNewSubmapPose'')
                 [1 ..< length (global_map st)]
         \<and> dom (variables graph) = stamp ` set (global_map st)"
proof (intro exI conjI impI)
  show "chain_graph env st (global_map st) =
          Inr (foldl update (update make_shared_graph (prior_transaction st (global_map st ! 0)))
                 (map (relative_transaction env st (global_map st)) [1 ..< length (global_map st)]),
               GraphUpdate (prior_transaction st (global_map st ! 0))
                 # map (\<lambda>i. GraphUpdate (relative_transaction env st (global_map st) i))
                     [1 ..< length (global_map st)])"
    by (rule chain_graph_eq [OF assms])
next
  assume "pgo_directories env output_path"
  then show "RunPoseGraphOptimization env st output_path =
     sweep env (CombinePaths env output_path ''refinement'')
       (CombinePaths env output_path ''candidate_search'') (length (global_map st))
       (pgo_skip_first_n_submaps st)
       (foldl update (update make_shared_graph (prior_transaction st (global_map st ! 0)))
          (map (relative_transaction env st (global_map st)) [1 ..< length (global_map st)]))
       (emit (pgo_preamble env st output_path
              @ GraphUpdate (prior_transaction st (global_map st ! 0))
                # map (\<lambda>i. GraphUpdate (relative_transaction env st (global_map st) i))
                    [1 ..< length (global_map st)]) st)"
    using assms by (rule RunPoseGraphOptimization_nonempty)
qed (rule chain_graph_constraints chain_graph_variables [OF assms])+

text \<open>
  Three submaps, output to \<^verbatim>\<open>/out\<close>: one prior on submap 0 and the two chain constraints.
\<close>

theorem C6_chain_graph_prior_and_chain_witness:
  "global_map (demo_object 3 2) \<noteq> []
   \<and> pgo_directories demo_env ''/out''
   \<and> map_sum id (\<lambda>r. constraints (fst r))
       (chain_graph demo_env (demo_object 3 2) (global_map (demo_object 3 2))) =
     Inr [AbsolutePose (Time 0 0) 0 0 ''GlobalMapRefinement::RunPoseGraphOptimization'',
          RelativePose (Time 0 0) (Time 1 0) 10 2 ''GlobalMap::InitiateNewSubmapPose'',
          RelativePose (Time 1 0) (Time 2 0) 10 2 ''GlobalMap::InitiateNewSubmapPose'']"
proof -
  have ne: "global_map (demo_object 3 2) \<noteq> []"
    by (simp add: demo_object_def default_object_def)
  have dirs: "pgo_directories demo_env ''/out''"
    by code_simp
  obtain graph evs where g:
    "chain_graph demo_env (demo_object 3 2) (global_map (demo_object 3 2)) = Inr (graph, evs)"
    "constraints graph =
       AbsolutePose (stamp (global_map (demo_object 3 2) ! 0))
         (T_WORLD_SUBMAP (global_map (demo_object 3 2) ! 0))
         (pose_prior_noise (demo_object 3 2)) ''GlobalMapRefinement::RunPoseGraphOptimization''
       # map (\<lambda>i. RelativePose (stamp (global_map (demo_object 3 2) ! (i - 1)))
                   (stamp (global_map (demo_object 3 2) ! i))
                   (compose demo_env
                      (InvertTransform demo_env (T_WORLD_SUBMAP (global_map (demo_object 3 2) ! (i - 1))))
                      (T_WORLD_SUBMAP (global_map (demo_object 3 2) ! i)))
                   (local_mapper_covariance (loop_closure (params (demo_object 3 2))))
                   ''GlobalMap::InitiateNewSubmapPose'')
           [1 ..< length (global_map (demo_object 3 2))]"
    using C6_chain_graph_prior_and_chain [OF ne, of demo_env "''/out''"] by blast
  have "AbsolutePose (stamp (global_map (demo_object 3 2) ! 0))
         (T_WORLD_SUBMAP (global_map (demo_object 3 2) ! 0))
         (pose_prior_noise (demo_object 3 2)) ''GlobalMapRefinement::RunPoseGraphOptimization''
       # map (\<lambda>i. RelativePose (stamp (global_map (demo_object 3 2) ! (i - 1)))
                   (stamp (global_map (demo_object 3 2) ! i))
                   (compose demo_env
                      (InvertTransform demo_env (T_WORLD_SUBMAP (global_map (demo_object 3 2) ! (i - 1))))
                      (T_WORLD_SUBMAP (global_map (demo_object 3 2) ! i)))
                   (local_mapper_covariance (loop_closure (params (demo_object 3 2))))
                   ''GlobalMap::InitiateNewSubmapPose'')
           [1 ..< length (global_map (demo_object 3 2))] =
     [AbsolutePose (Time 0 0) 0 0 ''GlobalMapRefinement::RunPoseGraphOptimization'',
      RelativePose (Time 0 0) (Time 1 0) 10 2 ''GlobalMap::InitiateNewSubmapPose'',
      RelativePose (Time 1 0) (Time 2 0) 10 (2::int) ''GlobalMap::InitiateNewSubmapPose'']"
    by code_simp
  then show ?thesis using ne dirs g by simp
qed

subsection \<open>C7: a scan whose registration fails\<close>




subsection \<open>C8: the entries of the refinement summary\<close>

text \<open>
  C8 says that for every submap \<^verbatim>\<open>RefineSubmap\<close> processes, one \<^verbatim>\<open>RegistrationResult\<close>
  per scan keyframe, keyed by the scan's timestamp and comparing the scan's pose before
  and after the local solve, is appended to the refinement summary, whether or not the
  scan's registration succeeded. The summary is written with \<^verbatim>\<open>emplace\<close>, which leaves
  an entry that is already there untouched, so the claim fails when a timestamp is in
  the summary already. As amended: when the output path is an existing directory, the
  directory of the submap can be made in it and the engine is constructed,
  \<^verbatim>\<open>RefineSubmap\<close> returns true and leaves the summary as the old summary
  extended, for every scan timestamp that had no entry, by the result comparing that
  scan's pose before and after the solve (of the first scan with that timestamp);
  entries that were there are kept. So every scan keyframe's timestamp has an entry
  afterwards, whatever its registration did, and when the timestamps are distinct and
  new, every scan's entry is the comparison of its own pose before and after.
\<close>

theorem C8_refinement_summary_entries:
  assumes nonempty: "output_path \<noteq> []"
    and path: "fs_exists env output_path"
    and made: "can_create env (submap_output_path env output_path submap)"
    and create: "sr_Create env (scan_registration_config (submap_refinement_params (params st)))
           (sr_matcher_config (submap_refinement_params (params st)))
           (submap_output_path env output_path submap) True = Inr sr"
  shows "fst (RefineSubmap env st submap output_path) = Returned True
    \<and> submap_refinement (summary (snd (snd (RefineSubmap env st submap output_path)))) =
        map_of (map (\<lambda>scan_pose. (sp_stamp scan_pose,
                      mk_RegistrationResult env (T_REFFRAME_BASELINK scan_pose)
                        (T_REFFRAME_BASELINK
                           (ScanPose_UpdatePose (refined_graph env sr submap) scan_pose))))
                    (lidar_keyframes submap))
        ++ submap_refinement (summary st)
    \<and> dom (submap_refinement (summary (snd (snd (RefineSubmap env st submap output_path))))) =
        dom (submap_refinement (summary st)) \<union> sp_stamp ` set (lidar_keyframes submap)
    \<and> (distinct (map sp_stamp (lidar_keyframes submap))
        \<and> list_all (\<lambda>scan_pose. submap_refinement (summary st) (sp_stamp scan_pose) = None)
             (lidar_keyframes submap) \<longrightarrow>
        list_all (\<lambda>scan_pose.
            submap_refinement (summary (snd (snd (RefineSubmap env st submap output_path))))
              (sp_stamp scan_pose) =
            Some (mk_RegistrationResult env (T_REFFRAME_BASELINK scan_pose)
                    (T_REFFRAME_BASELINK
                       (ScanPose_UpdatePose (refined_graph env sr submap) scan_pose))))
          (lidar_keyframes submap))"
proof -
  let ?new = "map_of (map (\<lambda>scan_pose. (sp_stamp scan_pose,
                      mk_RegistrationResult env (T_REFFRAME_BASELINK scan_pose)
                        (T_REFFRAME_BASELINK
                           (ScanPose_UpdatePose (refined_graph env sr submap) scan_pose))))
                    (lidar_keyframes submap))"
  have sm: "submap_refinement (summary (snd (snd (RefineSubmap env st submap output_path)))) =
        ?new ++ submap_refinement (summary st)"
    and ok: "fst (RefineSubmap env st submap output_path) = Returned True"
    by (simp_all add: RefineSubmap_ok [OF nonempty path made create])
  have d: "dom ?new = sp_stamp ` set (lidar_keyframes submap)"
    by (simp add: dom_map_of_conv_image_fst image_image)
  have fresh: "(?new ++ submap_refinement (summary st)) (sp_stamp s) =
            Some (mk_RegistrationResult env (T_REFFRAME_BASELINK s)
                    (T_REFFRAME_BASELINK (ScanPose_UpdatePose (refined_graph env sr submap) s)))"
    if "distinct (map sp_stamp (lidar_keyframes submap))"
      and "submap_refinement (summary st) (sp_stamp s) = None"
      and "s \<in> set (lidar_keyframes submap)" for s
    using map_of_fresh [OF that(1) that(3)] that(2) by (simp add: map_add_def)
  show ?thesis
    unfolding sm using ok d fresh by (auto simp: list_all_iff)
qed

text \<open>
  A first refinement of a submap with two scans, into an empty summary, output to
  \<^verbatim>\<open>/out\<close>: the first scan is registered and moves from 1 to 7, the registration of the
  second fails and it stays at 2; both get their entry.
\<close>

theorem C8_refinement_summary_entries_witness:
  "fs_exists demo_env ''/out''
   \<and> can_create demo_env (submap_output_path demo_env ''/out'' (demo_submap 0))
   \<and> sr_Create demo_env (scan_registration_config (submap_refinement_params (params (demo_object 2 2))))
      (sr_matcher_config (submap_refinement_params (params (demo_object 2 2))))
      (submap_output_path demo_env ''/out'' (demo_submap 0)) True = Inr 0
   \<and> distinct (map sp_stamp (lidar_keyframes (demo_submap 0)))
   \<and> submap_refinement (summary (demo_object 2 2)) (Time 0 100) = None
   \<and> submap_refinement (summary (demo_object 2 2)) (Time 0 200) = None
   \<and> fst refined_once = Returned True
   \<and> submap_refinement (summary (snd (snd refined_once))) (Time 0 100) = Some \<lparr>dR = 0, dt = 6000\<rparr>
   \<and> submap_refinement (summary (snd (snd refined_once))) (Time 0 200) = Some \<lparr>dR = 0, dt = 0\<rparr>
   \<and> submap_refinement (summary (snd (snd refined_once))) (Time 0 300) = None"
proof -
  have c: "sr_Create demo_env (scan_registration_config (submap_refinement_params (params (demo_object 2 2))))
      (sr_matcher_config (submap_refinement_params (params (demo_object 2 2))))
      (submap_output_path demo_env ''/out'' (demo_submap 0)) True = Inr 0"
    by (simp add: demo_env_def)
  have n: "''/out'' \<noteq> []"
    by simp
  have p: "fs_exists demo_env ''/out''"
    by (simp add: demo_env_def)
  have m: "can_create demo_env (submap_output_path demo_env ''/out'' (demo_submap 0))"
    by code_simp
  have k: "lidar_keyframes (demo_submap 0) =
             [\<lparr>sp_stamp = Time 0 100, T_REFFRAME_BASELINK = 1, sp_cloud = 0\<rparr>,
              \<lparr>sp_stamp = Time 0 200, T_REFFRAME_BASELINK = 2, sp_cloud = 0\<rparr>]"
    by (simp add: demo_submap_def)
  have s: "submap_refinement (summary (demo_object 2 2)) = Map.empty"
    by (simp add: demo_object_def default_object_def)
  have g: "variables (refined_graph demo_env 0 (demo_submap 0)) (Time 0 100) = Some 7"
          "variables (refined_graph demo_env 0 (demo_submap 0)) (Time 0 200) = None"
    by code_simp+
  have e: "compose demo_env = (+)" "InvertTransform demo_env = uminus"
      "rotation_deg demo_env = (\<lambda>T. 0)" "translation_mm demo_env = (\<lambda>T. \<bar>T\<bar> * 1000)"
    by (simp_all add: demo_env_def)
  show ?thesis
    using C8_refinement_summary_entries [OF n p m c] p m c
    by (simp add: refined_once_def k s g e ScanPose_UpdatePose_def mk_RegistrationResult_def
          Let_def)
qed

text \<open>
  C8 as stated fails on a second refinement of the same submap, both with output to
  \<^verbatim>\<open>/out\<close>, where the first call has made the directory of the submap: the scan at stamp
  \<open>Time 0 100\<close> is at 7 before and after the second solve, which compares to 0 mm, but
  the summary still holds the 6000 mm of the first call, and no entry is added.
\<close>

theorem C8_second_refinement_counterexample:
  "refined_once = RefineSubmap demo_env (demo_object 2 2) (demo_submap 0) ''/out''
   \<and> refined_twice =
       RefineSubmap demo_env (snd (snd refined_once)) (fst (snd refined_once)) ''/out''
   \<and> fst refined_once = Returned True
   \<and> map T_REFFRAME_BASELINK (lidar_keyframes (fst (snd refined_once))) = [7, 2]
   \<and> submap_refinement (summary (snd (snd refined_once))) (Time 0 100) = Some \<lparr>dR = 0, dt = 6000\<rparr>
   \<and> fst refined_twice = Returned True
   \<and> map T_REFFRAME_BASELINK (lidar_keyframes (fst (snd refined_twice))) = [7, 2]
   \<and> mk_RegistrationResult demo_env 7 7 = \<lparr>dR = 0, dt = 0\<rparr>
   \<and> submap_refinement (summary (snd (snd refined_twice))) (Time 0 100) = Some \<lparr>dR = 0, dt = 6000\<rparr>"
proof -
  have "fst refined_once = Returned True
   \<and> map T_REFFRAME_BASELINK (lidar_keyframes (fst (snd refined_once))) = [7, 2]
   \<and> submap_refinement (summary (snd (snd refined_once))) (Time 0 100) = Some \<lparr>dR = 0, dt = 6000\<rparr>
   \<and> fst refined_twice = Returned True
   \<and> map T_REFFRAME_BASELINK (lidar_keyframes (fst (snd refined_twice))) = [7, 2]
   \<and> mk_RegistrationResult demo_env 7 7 = \<lparr>dR = 0, dt = 0\<rparr>
   \<and> submap_refinement (summary (snd (snd refined_twice))) (Time 0 100) = Some \<lparr>dR = 0, dt = 6000\<rparr>"
    by code_simp
  then show ?thesis
    by (simp add: refined_once_def refined_twice_def)
qed

subsection \<open>C9: configuration errors\<close>

text \<open>
  C9 says that an unreadable config file, missing required JSON keys, an invalid matcher
  type and an invalid output path are all raised at setup, before any stage runs, so
  that nothing is mutated and no summary entry is written before the exception. That
  holds for the first three, which end the constructor. The output path is not an input
  of the constructor: it is checked at the head of \<^verbatim>\<open>RefineSubmap\<close> and \<^verbatim>\<open>AlignSubmaps\<close>,
  each time one is called. As amended: an unreadable config file, a missing required
  key and an invalid matcher type make the constructor throw, so no stage can run; an
  output path that is not empty and does not exist makes \<^verbatim>\<open>RefineSubmap\<close> and
  \<^verbatim>\<open>AlignSubmaps\<close> throw at their entry, before that call changes a submap or the summary
  (it only logs an error).
\<close>

theorem C9_config_errors_at_setup_path_errors_at_call:
  "(config_path \<noteq> [] \<and> ReadJson env config_path = None \<longrightarrow>
      GlobalMapRefinement_of_config env defaults skip noise submaps config_path =
        Inl (runtime_error ''Unable to read global map refinement config''))
   \<and> (config_path \<noteq> [] \<and> ReadJson env config_path = Some J \<and> \<not> required_keys_present J \<longrightarrow>
        (\<exists>e. GlobalMapRefinement_of_config env defaults skip noise submaps config_path = Inl e))
   \<and> (LoadJson env defaults config_path = Inr p
        \<and> GetTypeFromConfig env (sa_matcher_config (submap_alignment_params p)) = UNKNOWN \<longrightarrow>
        GlobalMapRefinement_of_config env defaults skip noise submaps config_path =
          Inl (invalid_argument ''invalid json'')
      \<and> GlobalMapRefinement_of_params env p skip noise submaps =
          Inl (invalid_argument ''invalid json''))
   \<and> (output_path \<noteq> [] \<and> \<not> fs_exists env output_path \<longrightarrow>
        RefineSubmap env st submap output_path =
          (Thrown (runtime_error ''invalid path''), submap,
           emit [LogError ''Invalid output path for submap refinement''] st)
      \<and> AlignSubmaps env st submap_ref submap output_path =
          (Thrown (runtime_error ''invalid path''), submap,
           emit [LogError ''Invalid output path for submap alignment''] st)
      \<and> summary (emit [LogError ''Invalid output path for submap refinement''] st) = summary st
      \<and> global_map (emit [LogError ''Invalid output path for submap refinement''] st) = global_map st)"
proof (intro conjI impI)
  assume "config_path \<noteq> [] \<and> ReadJson env config_path = None"
  then show "GlobalMapRefinement_of_config env defaults skip noise submaps config_path =
        Inl (runtime_error ''Unable to read global map refinement config'')"
    by (simp add: GlobalMapRefinement_of_config_def LoadJson_unreadable)
next
  assume a: "config_path \<noteq> [] \<and> ReadJson env config_path = Some J \<and> \<not> required_keys_present J"
  show "\<exists>e. GlobalMapRefinement_of_config env defaults skip noise submaps config_path = Inl e"
  proof (cases "LoadJson env defaults config_path")
    case (Inl e)
    then show ?thesis by (simp add: GlobalMapRefinement_of_config_def)
  next
    case (Inr p')
    then show ?thesis using a LoadJson_keys [of env defaults config_path p' J] by simp
  qed
next
  assume a: "LoadJson env defaults config_path = Inr p
        \<and> GetTypeFromConfig env (sa_matcher_config (submap_alignment_params p)) = UNKNOWN"
  then show "GlobalMapRefinement_of_config env defaults skip noise submaps config_path =
          Inl (invalid_argument ''invalid json'')"
    by (simp add: GlobalMapRefinement_of_config_def Setup_invalid_type default_object_def)
  from a show "GlobalMapRefinement_of_params env p skip noise submaps =
          Inl (invalid_argument ''invalid json'')"
    by (simp add: GlobalMapRefinement_of_params_def Setup_invalid_type default_object_def)
next
  assume a: "output_path \<noteq> [] \<and> \<not> fs_exists env output_path"
  then show "RefineSubmap env st submap output_path =
          (Thrown (runtime_error ''invalid path''), submap,
           emit [LogError ''Invalid output path for submap refinement''] st)"
    by (simp add: RefineSubmap_def)
  from a show "AlignSubmaps env st submap_ref submap output_path =
          (Thrown (runtime_error ''invalid path''), submap,
           emit [LogError ''Invalid output path for submap alignment''] st)"
    by (simp add: AlignSubmaps_def)
qed simp_all

theorem C9_config_errors_at_setup_path_errors_at_call_witness:
  "ReadJson demo_env ''/nofile.json'' = None
   \<and> GlobalMapRefinement_of_config demo_env demo_params 2 0 [demo_submap 0] ''/nofile.json'' =
       Inl (runtime_error ''Unable to read global map refinement config'')
   \<and> ReadJson demo_env ''/nokeys.json'' = Some (JObject [])
   \<and> \<not> required_keys_present (JObject [] :: int json)
   \<and> GlobalMapRefinement_of_config demo_env demo_params 2 0 [demo_submap 0] ''/nokeys.json'' =
       Inl (invalid_argument ''missing required json key'')
   \<and> LoadJson demo_env bad_params [] = Inr bad_params
   \<and> GetTypeFromConfig demo_env (sa_matcher_config (submap_alignment_params bad_params)) = UNKNOWN
   \<and> GlobalMapRefinement_of_params demo_env bad_params 2 0 [demo_submap 0] =
       Inl (invalid_argument ''invalid json'')
   \<and> \<not> fs_exists demo_env ''/missing''
   \<and> RefineSubmap demo_env (demo_object 1 2) (demo_submap 0) ''/missing'' =
       (Thrown (runtime_error ''invalid path''), demo_submap 0,
        emit [LogError ''Invalid output path for submap refinement''] (demo_object 1 2))
   \<and> AlignSubmaps demo_env (demo_object 2 2) (demo_submap 0) (demo_submap 1) ''/missing'' =
       (Thrown (runtime_error ''invalid path''), demo_submap 1,
        emit [LogError ''Invalid output path for submap alignment''] (demo_object 2 2))"
proof -
  have h1: "ReadJson demo_env ''/nofile.json'' = None"
    and h2: "ReadJson demo_env ''/nokeys.json'' = Some (JObject [])"
    and h3: "\<not> required_keys_present (JObject [] :: int json)"
    and h4: "LoadJson demo_env bad_params [] = Inr bad_params"
    and h5: "GetTypeFromConfig demo_env (sa_matcher_config (submap_alignment_params bad_params)) = UNKNOWN"
    and h6: "\<not> fs_exists demo_env ''/missing''"
    by (simp_all add: demo_env_def required_keys_present_def LoadJson_def bad_params_def)
  have k: "GlobalMapRefinement_of_config demo_env demo_params 2 0 [demo_submap 0] ''/nokeys.json'' =
       Inl (invalid_argument ''missing required json key'')"
    by (simp add: GlobalMapRefinement_of_config_def LoadJson_def h2 ValidateJsonKeysOrThrow_def
          and_then_def)
  show ?thesis
    using C9_config_errors_at_setup_path_errors_at_call
            [where env = demo_env and config_path = "''/nofile.json''" and defaults = demo_params
               and skip = 2 and noise = 0 and submaps = "[demo_submap 0]" and st = "demo_object 1 2"
               and submap = "demo_submap 0" and output_path = "''/missing''"]
          C9_config_errors_at_setup_path_errors_at_call
            [where env = demo_env and config_path = "[]" and defaults = bad_params
               and p = bad_params
               and skip = 2 and noise = 0 and submaps = "[demo_submap 0]" and st = "demo_object 2 2"
               and submap = "demo_submap 1" and submap_ref = "demo_submap 0"
               and output_path = "''/missing''"]
          h1 h2 h3 h4 h5 h6 k
    by simp
qed

text \<open>
  C9 as stated fails: the constructor is not given the output path, so setup succeeds
  whatever the path will be; a first alignment stage, with output to \<^verbatim>\<open>/out\<close>, overwrites
  the pose of submap 1 and writes a summary entry; the same stage called next with the
  missing path \<^verbatim>\<open>/missing\<close> throws, after a stage has run and changed the state. On a
  single submap the alignment stage returns true for the missing path.
\<close>

theorem C9_invalid_path_counterexample:
  "\<not> fs_exists demo_env ''/missing''
   \<and> GlobalMapRefinement_of_params demo_env demo_params 2 0 (map demo_submap [0 ..< 2]) =
       Inr (demo_object 2 2)
   \<and> fst (RunSubmapAlignment demo_env (demo_object 2 2) ''/out'') = Returned True
   \<and> submap_alignment (summary (snd (RunSubmapAlignment demo_env (demo_object 2 2) ''/out'')))
       (Time 1 0) = Some \<lparr>dR = 0, dt = 1000\<rparr>
   \<and> map T_WORLD_SUBMAP
         (global_map (snd (RunSubmapAlignment demo_env (demo_object 2 2) ''/out''))) =
       [0, 11]
   \<and> fst (RunSubmapAlignment demo_env
            (snd (RunSubmapAlignment demo_env (demo_object 2 2) ''/out'')) ''/missing'') =
       Thrown (runtime_error ''invalid path'')
   \<and> fst (RunSubmapAlignment demo_env (demo_object 1 2) ''/missing'') = Returned True"
proof -
  have a: "\<not> fs_exists demo_env ''/missing''"
    by (simp add: demo_env_def)
  have b: "GlobalMapRefinement_of_params demo_env demo_params 2 0 (map demo_submap [0 ..< 2]) =
       Inr (demo_object 2 2)"
    by (simp add: GlobalMapRefinement_of_params_def Setup_def Let_def demo_object_def
          default_object_def demo_params_def demo_env_def)
  have c: "fst (RunSubmapAlignment demo_env (demo_object 2 2) ''/out'') = Returned True"
    "submap_alignment (summary (snd (RunSubmapAlignment demo_env (demo_object 2 2) ''/out'')))
       (Time 1 0) = Some \<lparr>dR = 0, dt = 1000\<rparr>"
    "map T_WORLD_SUBMAP
       (global_map (snd (RunSubmapAlignment demo_env (demo_object 2 2) ''/out''))) =
       [0, 11]"
    "fst (RunSubmapAlignment demo_env
            (snd (RunSubmapAlignment demo_env (demo_object 2 2) ''/out'')) ''/missing'') =
       Thrown (runtime_error ''invalid path'')"
    "fst (RunSubmapAlignment demo_env (demo_object 1 2) ''/missing'') = Returned True"
    by code_simp+
  show ?thesis using a b c by simp
qed

subsection \<open>C10: the outcome of the pose-graph optimisation\<close>

text \<open>
  C10 says \<^verbatim>\<open>RunPoseGraphOptimization\<close> returns true wherever it returns, and that with
  no more submaps than the skip-first-N threshold it logs an error, does not abort,
  still adds the prior and the chain constraints and reports success. The first part
  holds. The second needs the two result directories: they are made after the error is
  logged and before the graph is touched, and \<^verbatim>\<open>create_directory\<close> throws when it cannot
  make one; and it needs a first submap to put the prior on. As amended: the function
  never returns false; when the two result directories cannot be made it throws
  \<^verbatim>\<open>filesystem_error\<close>; when they can, on a map with at least one submap and no more
  than the threshold, it logs the error, adds the prior and the chain constraints, runs
  no query and returns true.
\<close>

theorem C10_pgo_reports_success:
  "fst (RunPoseGraphOptimization env st output_path) \<noteq> Returned False
   \<and> (\<not> pgo_directories env output_path \<longrightarrow>
        fst (RunPoseGraphOptimization env st output_path) = Thrown filesystem_error)
   \<and> (pgo_directories env output_path
        \<and> global_map st \<noteq> [] \<and> length (global_map st) \<le> pgo_skip_first_n_submaps st \<longrightarrow>
        fst (RunPoseGraphOptimization env st output_path) = Returned True
      \<and> pgo_events env st output_path =
          [LogError ''Global map size not large enough to run PGO'',
           CreateDirectory (CombinePaths env output_path ''refinement''),
           CreateDirectory (CombinePaths env output_path ''candidate_search''),
           GraphUpdate (prior_transaction st (global_map st ! 0))]
          @ map (\<lambda>i. GraphUpdate (relative_transaction env st (global_map st) i))
              [1 ..< length (global_map st)])"
proof -
  have a: "fst (RunPoseGraphOptimization env st output_path) \<noteq> Returned False"
  proof (cases "\<not> pgo_directories env output_path \<or> global_map st = []")
    case True
    obtain e where "RunPoseGraphOptimization env st output_path =
           (Thrown e, emit (pgo_preamble env st output_path) st)"
      using RunPoseGraphOptimization_stopped [OF True] by blast
    then show ?thesis by simp
  next
    case False
    then show ?thesis by (simp add: RunPoseGraphOptimization_nonempty sweep_not_false)
  qed
  have b: "fst (RunPoseGraphOptimization env st output_path) = Thrown filesystem_error"
    if "\<not> pgo_directories env output_path"
    using that by (simp add: RunPoseGraphOptimization_no_directories)
  have c: "fst (RunPoseGraphOptimization env st output_path) = Returned True
      \<and> pgo_events env st output_path =
          [LogError ''Global map size not large enough to run PGO'',
           CreateDirectory (CombinePaths env output_path ''refinement''),
           CreateDirectory (CombinePaths env output_path ''candidate_search''),
           GraphUpdate (prior_transaction st (global_map st ! 0))]
          @ map (\<lambda>i. GraphUpdate (relative_transaction env st (global_map st) i))
              [1 ..< length (global_map st)]"
    if dirs: "pgo_directories env output_path" and ne: "global_map st \<noteq> []"
      and le: "length (global_map st) \<le> pgo_skip_first_n_submaps st"
  proof -
    have stop: "\<not> pgo_skip_first_n_submaps st < length (global_map st) - 1"
      using le by simp
    have made: "can_create env (CombinePaths env output_path ''refinement'')"
      using dirs by (simp add: pgo_directories_def)
    show ?thesis
      using ne le stop made
      by (simp add: RunPoseGraphOptimization_nonempty [OF dirs ne] pgo_events_def sweep.simps
            pgo_preamble_def)
  qed
  show ?thesis using a b c by blast
qed

text \<open>
  Two submaps, threshold 2, output to \<^verbatim>\<open>/out\<close>: the error is logged, the graph is built
  and the call returns true. With output to \<^verbatim>\<open>/missing\<close> the call throws.
\<close>

theorem C10_pgo_reports_success_witness:
  "pgo_directories demo_env ''/out''
   \<and> global_map (demo_object 2 2) \<noteq> []
   \<and> length (global_map (demo_object 2 2)) \<le> pgo_skip_first_n_submaps (demo_object 2 2)
   \<and> fst (RunPoseGraphOptimization demo_env (demo_object 2 2) ''/out'') = Returned True
   \<and> pgo_events demo_env (demo_object 2 2) ''/out'' =
       [LogError ''Global map size not large enough to run PGO'',
        CreateDirectory ''/out/refinement'',
        CreateDirectory ''/out/candidate_search'',
        GraphUpdate \<lparr>added_variables = [(Time 0 0, 0)],
                     added_constraints =
                       [AbsolutePose (Time 0 0) 0 0
                          ''GlobalMapRefinement::RunPoseGraphOptimization'']\<rparr>,
        GraphUpdate \<lparr>added_variables = [(Time 1 0, 10)],
                     added_constraints =
                       [RelativePose (Time 0 0) (Time 1 0) 10 2
                          ''GlobalMap::InitiateNewSubmapPose'']\<rparr>]
   \<and> \<not> pgo_directories demo_env ''/missing''
   \<and> fst (RunPoseGraphOptimization demo_env (demo_object 2 2) ''/missing'') =
       Thrown filesystem_error"
proof -
  have dirs: "pgo_directories demo_env ''/out''"
    and nodirs: "\<not> pgo_directories demo_env ''/missing''"
    by code_simp+
  have ne: "global_map (demo_object 2 2) \<noteq> []"
    and le: "length (global_map (demo_object 2 2)) \<le> pgo_skip_first_n_submaps (demo_object 2 2)"
    by (simp_all add: demo_object_def default_object_def)
  have ev: "[LogError ''Global map size not large enough to run PGO'',
           CreateDirectory (CombinePaths demo_env ''/out'' ''refinement''),
           CreateDirectory (CombinePaths demo_env ''/out'' ''candidate_search''),
           GraphUpdate (prior_transaction (demo_object 2 2) (global_map (demo_object 2 2) ! 0))]
          @ map (\<lambda>i. GraphUpdate (relative_transaction demo_env (demo_object 2 2)
                                     (global_map (demo_object 2 2)) i))
              [1 ..< length (global_map (demo_object 2 2))] =
       [LogError ''Global map size not large enough to run PGO'',
        CreateDirectory ''/out/refinement'',
        CreateDirectory ''/out/candidate_search'',
        GraphUpdate \<lparr>added_variables = [(Time 0 0, 0)],
                     added_constraints =
                       [AbsolutePose (Time 0 0) 0 0
                          ''GlobalMapRefinement::RunPoseGraphOptimization'']\<rparr>,
        GraphUpdate \<lparr>added_variables = [(Time 1 0, 10)],
                     added_constraints =
                       [RelativePose (Time 0 0) (Time 1 0) 10 2
                          ''GlobalMap::InitiateNewSubmapPose'']\<rparr> :: (int, int, int) event]"
    by code_simp
  show ?thesis
    using C10_pgo_reports_success [of demo_env "demo_object 2 2" "''/out''"]
          C10_pgo_reports_success [of demo_env "demo_object 2 2" "''/missing''"]
          dirs nodirs ne le ev
    by simp
qed

text \<open>
  C10 as stated fails on two submaps with threshold 2 and output to \<^verbatim>\<open>/missing\<close>: the
  error is logged, the first \<^verbatim>\<open>create_directory\<close> throws, nothing is added to the graph
  and no success is reported. It fails on an empty map too, with output to \<^verbatim>\<open>/out\<close>:
  there is no first submap to put the prior on, and \<^verbatim>\<open>submaps.at(0)\<close> throws.
\<close>

theorem C10_abort_counterexample:
  "length (global_map (demo_object 2 2)) \<le> pgo_skip_first_n_submaps (demo_object 2 2)
   \<and> \<not> fs_exists demo_env ''/missing''
   \<and> fst (RunPoseGraphOptimization demo_env (demo_object 2 2) ''/missing'') =
       Thrown filesystem_error
   \<and> pgo_events demo_env (demo_object 2 2) ''/missing'' =
       [LogError ''Global map size not large enough to run PGO'',
        CreateDirectory ''/missing/refinement'']
   \<and> length (global_map (demo_object 0 2)) \<le> pgo_skip_first_n_submaps (demo_object 0 2)
   \<and> fst (RunPoseGraphOptimization demo_env (demo_object 0 2) ''/out'') = Thrown out_of_range
   \<and> pgo_events demo_env (demo_object 0 2) ''/out'' =
       [LogError ''Global map size not large enough to run PGO'',
        CreateDirectory ''/out/refinement'',
        CreateDirectory ''/out/candidate_search'']"
  by code_simp

end
